theory Spec2Isabelle
  imports Main "HOL-Library.Sublist"
begin

section \<open>SocialPulse: the sentiment service of \<^verbatim>\<open>app.py\<close>\<close>

text \<open>
  The service has one source file, \<^verbatim>\<open>app.py\<close>: a client that asks a remote
  generative-text API for a JSON report and cuts the JSON out of the answer
  (\<^verbatim>\<open>analyze_topic_with_gemini\<close>), a formatter (\<^verbatim>\<open>format_response\<close>) and two JSON
  routes (\<^verbatim>\<open>analyze_topic\<close>, \<^verbatim>\<open>health_check\<close>). Python values that come out of
  \<^verbatim>\<open>json.loads\<close> or \<^verbatim>\<open>request.get_json\<close> are modelled by the datatype \<open>json\<close>;
  exceptions are values of \<open>py_error\<close> and a function that may raise returns
  \<open>py_error + 'a\<close>. What the Python runtime and the libraries supply (the environment,
  the remote call, \<^verbatim>\<open>json.loads\<close>, the clock, \<^verbatim>\<open>str\<close> of an exception) is a field
  of the record \<open>world\<close>.
\<close>

subsection \<open>Python values and exceptions\<close>

text \<open>
  A JSON number is a Python \<^verbatim>\<open>int\<close> or a \<^verbatim>\<open>float\<close>. Floats are kept abstract: the
  type parameter \<open>'f\<close> stands for them, and everything the code needs of a float
  (its truth value, its \<^verbatim>\<open>str\<close>) is asked of the \<open>world\<close>. A \<^verbatim>\<open>dict\<close> is an
  association list in insertion order, looked up with \<open>map_of\<close>.
\<close>

datatype 'f json =
    JNull
  | JBool bool
  | JInt int
  | JFloat 'f
  | JStr string
  | JArr "'f json list"
  | JObj "(string \<times> 'f json) list"

datatype py_error =
    KeyError string
  | TypeError
  | AttributeError
  | IndexError
  | ValueError
  | RecursionError
  | JSONDecodeError string
  | BadRequest
  | UnsupportedMediaType
  | RemoteError string

fun is_JSONDecodeError :: "py_error \<Rightarrow> bool" where
  "is_JSONDecodeError (JSONDecodeError m) = True"
| "is_JSONDecodeError e = False"

subsection \<open>Strings: \<^verbatim>\<open>strip\<close>, \<^verbatim>\<open>in\<close>, \<^verbatim>\<open>split\<close>, indexing\<close>

text \<open>
  A \<open>char\<close> stands for one code point below 256. \<^verbatim>\<open>str.strip()\<close> removes the code
  points for which \<^verbatim>\<open>str.isspace\<close> holds; below 256 these are 9 to 13, 28 to 32, 133
  and 160.
\<close>

definition is_space :: "char \<Rightarrow> bool" where
  "is_space c = (of_char c \<in> set [9, 10, 11, 12, 13, 28, 29, 30, 31, 32, 133, 160 :: nat])"

definition strip :: "string \<Rightarrow> string" where
  "strip s = rev (dropWhile is_space (rev (dropWhile is_space s)))"

text \<open>\<^verbatim>\<open>sub in s\<close>: \<open>sub\<close> occurs in \<open>s\<close> as a contiguous substring.\<close>

fun py_in :: "string \<Rightarrow> string \<Rightarrow> bool" where
  "py_in sub [] = (sub = [])"
| "py_in sub (c # cs) = (prefix sub (c # cs) \<or> py_in sub cs)"

text \<open>
  \<^verbatim>\<open>s.split(sep)\<close> scans from the left, cuts at each occurrence of \<open>sep\<close> and goes on
  behind it, so occurrences do not overlap. \<open>acc\<close> holds, reversed, the characters of
  the piece being read. Python raises \<^verbatim>\<open>ValueError\<close> for an empty separator.
\<close>

function split_from :: "string \<Rightarrow> string \<Rightarrow> string \<Rightarrow> string list" where
  "split_from sep acc s =
     (if s = [] \<or> sep = [] then [rev acc @ s]
      else if prefix sep s then rev acc # split_from sep [] (drop (length sep) s)
      else split_from sep (hd s # acc) (tl s))"
  by pat_completeness auto
termination
  by (relation "measure (\<lambda>(sep, acc, s). length s)") (auto simp: neq_Nil_conv)

declare split_from.simps [simp del]

definition py_split :: "string \<Rightarrow> string \<Rightarrow> py_error + string list" where
  "py_split sep s = (if sep = [] then Inl ValueError else Inr (split_from sep [] s))"

text \<open>\<^verbatim>\<open>xs[i]\<close> for a non-negative literal index: \<^verbatim>\<open>IndexError\<close> out of range.\<close>

definition index :: "'a list \<Rightarrow> nat \<Rightarrow> py_error + 'a" where
  "index xs i = (if i < length xs then Inr (xs ! i) else Inl IndexError)"

subsection \<open>Cutting the JSON out of the upstream text (\<^verbatim>\<open>app.py\<close>, lines 55 to 61)\<close>

definition fence :: string where
  "fence = ''```''"

definition fence_json :: string where
  "fence_json = ''```json''"

text \<open>
  \<^verbatim>\<open>
  response_text = response.text.strip()
  if '```json' in response_text:
      response_text = response_text.split('```json')[1].split('```')[0].strip()
  elif '```' in response_text:
      response_text = response_text.split('```')[1].split('```')[0].strip()
  \<close>
  \<open>split_index_split sep s\<close> is \<^verbatim>\<open>s.split(sep)[1].split('```')[0].strip()\<close>.
\<close>

definition split_index_split :: "string \<Rightarrow> string \<Rightarrow> py_error + string" where
  "split_index_split sep s =
     (case py_split sep s of
        Inl e \<Rightarrow> Inl e
      | Inr parts \<Rightarrow>
          (case index parts 1 of
             Inl e \<Rightarrow> Inl e
           | Inr p \<Rightarrow>
               (case py_split fence p of
                  Inl e \<Rightarrow> Inl e
                | Inr parts' \<Rightarrow>
                    (case index parts' 0 of
                       Inl e \<Rightarrow> Inl e
                     | Inr q \<Rightarrow> Inr (strip q)))))"

definition extract_json :: "string \<Rightarrow> py_error + string" where
  "extract_json text =
     (let response_text = strip text in
      if py_in fence_json response_text then split_index_split fence_json response_text
      else if py_in fence response_text then split_index_split fence response_text
      else Inr response_text)"

subsection \<open>First occurrences, for stating what the extraction returns\<close>

text \<open>
  \<open>before sep s\<close> is the part of \<open>s\<close> in front of the first occurrence of \<open>sep\<close> (all
  of \<open>s\<close> when there is none), \<open>after sep s\<close> the part behind it (empty when there is
  none).
\<close>

fun before :: "string \<Rightarrow> string \<Rightarrow> string" where
  "before sep [] = []"
| "before sep (c # cs) = (if prefix sep (c # cs) then [] else c # before sep cs)"

fun after :: "string \<Rightarrow> string \<Rightarrow> string" where
  "after sep [] = []"
| "after sep (c # cs) =
     (if prefix sep (c # cs) then drop (length sep) (c # cs) else after sep cs)"

text \<open>
  The extraction as the specification words it: with a \<^verbatim>\<open>```json\<close> delimiter, the
  content between it and the next \<^verbatim>\<open>```\<close>; otherwise, with a \<^verbatim>\<open>```\<close>, the content
  between the first pair; otherwise the full text; stripped in every case.
\<close>

definition spec_extract :: "string \<Rightarrow> string" where
  "spec_extract text =
     (let s = strip text in
      if py_in fence_json s then strip (before fence (after fence_json s))
      else if py_in fence s then strip (before fence (after fence s))
      else strip s)"

text \<open>An upstream answer that is the JSON text \<open>J\<close> in a \<^verbatim>\<open>json\<close>-tagged fence.\<close>

definition wrap_json :: "string \<Rightarrow> string" where
  "wrap_json J = fence_json @ [CHR 0x0A] @ J @ [CHR 0x0A] @ fence"

subsection \<open>Python operations on parsed JSON\<close>

text \<open>Raising: \<open>bind_result x f\<close> goes on with \<open>f\<close> unless \<open>x\<close> raised.\<close>

definition bind_result :: "py_error + 'a \<Rightarrow> ('a \<Rightarrow> py_error + 'b) \<Rightarrow> py_error + 'b" where
  "bind_result x f = (case x of Inl e \<Rightarrow> Inl e | Inr v \<Rightarrow> f v)"

text \<open>\<^verbatim>\<open>bool(v)\<close>, as \<^verbatim>\<open>not topic\<close> uses it; \<open>fz\<close> is the truth value of a float.\<close>

fun truthy :: "('f \<Rightarrow> bool) \<Rightarrow> 'f json \<Rightarrow> bool" where
  "truthy fz JNull = False"
| "truthy fz (JBool b) = b"
| "truthy fz (JInt n) = (n \<noteq> 0)"
| "truthy fz (JFloat x) = fz x"
| "truthy fz (JStr s) = (s \<noteq> [])"
| "truthy fz (JArr xs) = (xs \<noteq> [])"
| "truthy fz (JObj kvs) = (kvs \<noteq> [])"

text \<open>
  \<^verbatim>\<open>v['key']\<close>: a \<^verbatim>\<open>dict\<close> without the key raises \<^verbatim>\<open>KeyError\<close>; a list, a string,
  a number, a boolean and \<^verbatim>\<open>None\<close> raise \<^verbatim>\<open>TypeError\<close> for a string subscript.
\<close>

fun subscript :: "'f json \<Rightarrow> string \<Rightarrow> py_error + 'f json" where
  "subscript (JObj kvs) k = (case map_of kvs k of None \<Rightarrow> Inl (KeyError k) | Some v \<Rightarrow> Inr v)"
| "subscript v k = Inl TypeError"

text \<open>\<^verbatim>\<open>v.get('key', default)\<close>: only a \<^verbatim>\<open>dict\<close> has the method.\<close>

fun py_get :: "'f json \<Rightarrow> string \<Rightarrow> 'f json \<Rightarrow> py_error + 'f json" where
  "py_get (JObj kvs) k d = Inr (case map_of kvs k of None \<Rightarrow> d | Some v \<Rightarrow> v)"
| "py_get v k d = Inl AttributeError"

text \<open>
  What \<^verbatim>\<open>enumerate(v)\<close> iterates over: the items of a list, the keys of a \<^verbatim>\<open>dict\<close>,
  the characters of a string; anything else is not iterable.
\<close>

fun py_iter :: "'f json \<Rightarrow> py_error + 'f json list" where
  "py_iter (JArr xs) = Inr xs"
| "py_iter (JObj kvs) = Inr (map (\<lambda>kv. JStr (fst kv)) kvs)"
| "py_iter (JStr s) = Inr (map (\<lambda>c. JStr [c]) s)"
| "py_iter v = Inl TypeError"

text \<open>\<^verbatim>\<open>str(n)\<close> of a Python \<^verbatim>\<open>int\<close>: decimal digits, a minus sign when negative.\<close>

fun str_nat :: "nat \<Rightarrow> string" where
  "str_nat n =
     (if n < 10 then [''0123456789'' ! n]
      else str_nat (n div 10) @ [''0123456789'' ! (n mod 10)])"

declare str_nat.simps [simp del]

definition str_int :: "int \<Rightarrow> string" where
  "str_int n = (if n < 0 then CHR ''-'' # str_nat (nat (- n)) else str_nat (nat n))"

text \<open>
  A value inside an f-string, \<^verbatim>\<open>f"{v}"\<close>, is \<^verbatim>\<open>str(v)\<close>; \<open>so\<close> renders floats,
  lists and dicts.
\<close>

fun py_str :: "('f json \<Rightarrow> string) \<Rightarrow> 'f json \<Rightarrow> string" where
  "py_str so (JStr s) = s"
| "py_str so (JInt n) = str_int n"
| "py_str so JNull = ''None''"
| "py_str so (JBool b) = (if b then ''True'' else ''False'')"
| "py_str so v = so v"

subsection \<open>The world outside the program\<close>

text \<open>
  \<^item> \<open>environ\<close>: \<^verbatim>\<open>os.environ\<close>;
  \<^item> \<open>generate_content\<close>: \<^verbatim>\<open>genai.GenerativeModel(...).generate_content(prompt)\<close>
    followed by \<^verbatim>\<open>response.text\<close>: the text, or the exception raised;
  \<^item> \<open>json_loads\<close>: \<^verbatim>\<open>json.loads\<close>: the parsed value, or the exception raised. For a
    text that is not JSON this is \<^verbatim>\<open>JSONDecodeError\<close> with its message; for a text
    nested deeper than the interpreter's recursion limit it is \<^verbatim>\<open>RecursionError\<close>, and
    for an integer literal longer than the interpreter's digit limit \<^verbatim>\<open>ValueError\<close>;
  \<^item> \<open>today n\<close>, \<open>isoformat n\<close>: \<^verbatim>\<open>datetime.now()\<close> at the \<open>n\<close>-th reading of the clock
    during one call of \<^verbatim>\<open>format_response\<close>, as \<^verbatim>\<open>strftime('%Y-%m-%d')\<close> and as
    \<^verbatim>\<open>isoformat()\<close>;
  \<^item> \<open>float_truth\<close>, \<open>str_other\<close>: \<^verbatim>\<open>bool\<close> of a float, \<^verbatim>\<open>str\<close> of a float, list or dict;
  \<^item> \<open>str_exc\<close>: \<^verbatim>\<open>str(e)\<close> of an exception.
\<close>

record 'f world =
  environ :: "string \<rightharpoonup> string"
  generate_content :: "string \<Rightarrow> py_error + string"
  json_loads :: "string \<Rightarrow> py_error + 'f json"
  today :: "nat \<Rightarrow> string"
  isoformat :: "nat \<Rightarrow> string"
  float_truth :: "'f \<Rightarrow> bool"
  str_other :: "'f json \<Rightarrow> string"
  str_exc :: "py_error \<Rightarrow> string"

text \<open>\<^verbatim>\<open>bool(os.environ.get('GEMINI_API_KEY'))\<close>: present and not empty.\<close>

definition has_api_key :: "'f world \<Rightarrow> bool" where
  "has_api_key w =
     (case environ w ''GEMINI_API_KEY'' of None \<Rightarrow> False | Some v \<Rightarrow> v \<noteq> [])"

subsection \<open>The prompt (\<^verbatim>\<open>app.py\<close>, lines 20 to 50)\<close>

definition nl :: string where
  "nl = [CHR 0x0A]"

text \<open>The f-string of the source, line by line; \<^verbatim>\<open>{{\<close> and \<^verbatim>\<open>}}\<close> are single braces.\<close>

definition build_prompt :: "('f json \<Rightarrow> string) \<Rightarrow> 'f json \<Rightarrow> string" where
  \<open>build_prompt so topic =
     ''You are a social sentiment analyst. Analyze public opinion about: "'' @ py_str so topic @ ''"'' @ nl
   @ '''' @ nl
   @ ''Based on your knowledge of public discourse, social media trends, news coverage, and general sentiment:'' @ nl
   @ '''' @ nl
   @ ''1. Provide a percentage breakdown of sentiment:'' @ nl
   @ ''   - What % of people have POSITIVE views'' @ nl
   @ ''   - What % of people have NEGATIVE views  '' @ nl
   @ ''   - What % are NEUTRAL/UNDECIDED'' @ nl
   @ '''' @ nl
   @ ''2. Generate 5 realistic examples of POSITIVE perspectives people would express'' @ nl
   @ ''3. Generate 5 realistic examples of NEGATIVE perspectives people would express'' @ nl
   @ '''' @ nl
   @ ''Format your response as JSON:'' @ nl
   @ ''{'' @ nl
   @ ''  "sentiment_distribution": {'' @ nl
   @ ''    "positive": <number between 0-100>,'' @ nl
   @ ''    "negative": <number between 0-100>,'' @ nl
   @ ''    "neutral": <number between 0-100>'' @ nl
   @ ''  },'' @ nl
   @ ''  "positive_examples": ['' @ nl
   @ ''    {"text": "example quote", "reasoning": "why people think this"},'' @ nl
   @ ''    ...5 total'' @ nl
   @ ''  ],'' @ nl
   @ ''  "negative_examples": ['' @ nl
   @ ''    {"text": "example quote", "reasoning": "why people think this"},'' @ nl
   @ ''    ...5 total'' @ nl
   @ ''  ],'' @ nl
   @ ''  "analysis_summary": "brief 2-3 sentence summary of the overall sentiment landscape"'' @ nl
   @ ''}'' @ nl
   @ '''' @ nl
   @ ''Make the percentages add up to 100. Make examples sound like real people talking (casual, authentic). Base this on actual public sentiment trends you're aware of.''\<close>

subsection \<open>The client: \<^verbatim>\<open>analyze_topic_with_gemini\<close>\<close>

text \<open>
  One remote call, then the extraction, then \<^verbatim>\<open>json.loads\<close>. The \<^verbatim>\<open>except\<close> clause
  prints the exception and raises it again, so every exception, whatever its class,
  is handed on unchanged.
\<close>

definition analyze_topic_with_gemini :: "'f world \<Rightarrow> 'f json \<Rightarrow> py_error + 'f json" where
  "analyze_topic_with_gemini w topic =
     bind_result (generate_content w (build_prompt (str_other w) topic)) (\<lambda>text.
     bind_result (extract_json text) (\<lambda>response_text.
       json_loads w response_text))"

subsection \<open>The formatter: \<^verbatim>\<open>format_response\<close>\<close>

text \<open>
  The dict literals of the source have fixed keys and are records here. The fields of
  an example carry the prefix \<open>ex_\<close>: \<open>ex_text\<close> is the key \<^verbatim>\<open>'text'\<close>, \<open>ex_type\<close>
  the key \<^verbatim>\<open>'type'\<close>, and so on. \<^verbatim>\<open>ex['text']\<close>, the three numbers and
  \<^verbatim>\<open>analysis_summary\<close> are whatever JSON values the payload holds, so these fields
  have type \<open>json\<close>.
\<close>

record 'f example =
  ex_text :: "'f json"
  ex_sentiment :: string
  ex_score :: int
  ex_type :: string
  ex_author :: string
  ex_created :: string
  ex_reasoning :: "'f json"

record 'f distribution =
  positive :: "'f json"
  negative :: "'f json"
  neutral :: "'f json"

record 'f perspective =
  percentage :: "'f json"
  count :: string
  examples :: "'f example list"

record 'f analysis_result =
  topic :: "'f json"
  total_analyzed :: string
  posts_analyzed :: string
  sentiment_distribution :: "'f distribution"
  positive_perspective :: "'f perspective"
  negative_perspective :: "'f perspective"
  neutral_count :: string
  analysis_summary :: "'f json"
  timestamp :: string
  powered_by :: string

text \<open>
  The two loops of lines 74 to 96 differ in the sentiment label, the first score
  (100 and 95) and the first author number (1 and 6); \<open>convert_examples\<close> is the loop
  with these three as arguments. \<open>i\<close> is the index \<^verbatim>\<open>enumerate\<close> gives, \<open>t\<close> the number
  of clock readings before the loop. In the dict literal \<^verbatim>\<open>ex['text']\<close> is evaluated
  before \<^verbatim>\<open>ex.get('reasoning', '')\<close>, and the first item that raises ends the loop.
\<close>

fun convert_examples ::
  "'f world \<Rightarrow> string \<Rightarrow> int \<Rightarrow> int \<Rightarrow> nat \<Rightarrow> nat \<Rightarrow> 'f json list \<Rightarrow> py_error + 'f example list"
where
  "convert_examples w label base first t i [] = Inr []"
| "convert_examples w label base first t i (ex # exs) =
     bind_result (subscript ex ''text'') (\<lambda>txt.
     bind_result (py_get ex ''reasoning'' (JStr [])) (\<lambda>why.
     bind_result (convert_examples w label base first t (Suc i) exs) (\<lambda>rest.
       Inr (\<lparr>ex_text = txt,
             ex_sentiment = label,
             ex_score = base - int i * 15,
             ex_type = ''opinion'',
             ex_author = ''user_'' @ str_int (int i + first),
             ex_created = today w (t + i),
             ex_reasoning = why\<rparr> # rest))))"

definition format_response ::
  "'f world \<Rightarrow> 'f json \<Rightarrow> 'f json \<Rightarrow> py_error + 'f analysis_result"
where
  "format_response w tp gemini_data =
     bind_result (subscript gemini_data ''positive_examples'') (\<lambda>pos.
     bind_result (py_iter pos) (\<lambda>pos_items.
     bind_result (convert_examples w ''positive'' 100 1 0 0 pos_items) (\<lambda>positive_examples.
     bind_result (subscript gemini_data ''negative_examples'') (\<lambda>neg.
     bind_result (py_iter neg) (\<lambda>neg_items.
     bind_result (convert_examples w ''negative'' 95 6 (length pos_items) 0 neg_items)
       (\<lambda>negative_examples.
     bind_result (subscript gemini_data ''sentiment_distribution'') (\<lambda>sentiment_dist.
     bind_result (subscript sentiment_dist ''positive'') (\<lambda>p.
     bind_result (subscript sentiment_dist ''negative'') (\<lambda>n.
     bind_result (subscript sentiment_dist ''neutral'') (\<lambda>u.
     bind_result (py_get gemini_data ''analysis_summary'' (JStr [])) (\<lambda>summary.
       Inr \<lparr>topic = tp,
            total_analyzed = ''AI Analysis'',
            posts_analyzed = ''Multiple Sources'',
            sentiment_distribution = \<lparr>positive = p, negative = n, neutral = u\<rparr>,
            positive_perspective =
              \<lparr>percentage = p,
               count = py_str (str_other w) p @ ''%'',
               examples = positive_examples\<rparr>,
            negative_perspective =
              \<lparr>percentage = n,
               count = py_str (str_other w) n @ ''%'',
               examples = negative_examples\<rparr>,
            neutral_count = py_str (str_other w) u @ ''%'',
            analysis_summary = summary,
            timestamp = isoformat w (length pos_items + length neg_items),
            powered_by = ''Gemini 2.0 Flash''\<rparr>)))))))))))"

subsection \<open>The routes: \<^verbatim>\<open>analyze_topic\<close> and \<^verbatim>\<open>health_check\<close>\<close>

text \<open>
  A response is a status and a body. The three bodies of the source are the formatted
  result, \<^verbatim>\<open>{'error': msg}\<close> and \<^verbatim>\<open>{'status': s, 'gemini_configured': b}\<close>. A handler
  returns its response together with the prompts it sent to the remote API, in order.
\<close>

datatype 'f body =
    Result_body "'f analysis_result"
  | Error_body string
  | Health_body string bool

record 'f response =
  status :: nat
  body :: "'f body"

text \<open>
  The two \<^verbatim>\<open>except\<close> clauses of \<^verbatim>\<open>analyze_topic\<close>: \<^verbatim>\<open>json.JSONDecodeError\<close> first,
  then \<^verbatim>\<open>Exception\<close>, which every exception of \<open>py_error\<close> is.
\<close>

definition handle_exception :: "'f world \<Rightarrow> py_error \<Rightarrow> 'f response" where
  "handle_exception w e =
     (if is_JSONDecodeError e
      then \<lparr>status = 500, body = Error_body (''Failed to parse AI response: '' @ str_exc w e)\<rparr>
      else \<lparr>status = 500, body = Error_body (''Analysis failed: '' @ str_exc w e)\<rparr>)"

text \<open>
  \<open>get_json\<close> is what \<^verbatim>\<open>request.get_json()\<close> does for the request: it returns the
  parsed body, or raises (Flask raises \<^verbatim>\<open>UnsupportedMediaType\<close> for a body that is not
  declared as JSON and \<^verbatim>\<open>BadRequest\<close> for one that does not parse).
\<close>

definition analyze_topic ::
  "'f world \<Rightarrow> py_error + 'f json \<Rightarrow> 'f response \<times> string list"
where
  "analyze_topic w get_json =
     (case bind_result get_json (\<lambda>data. py_get data ''topic'' (JStr [])) of
        Inl e \<Rightarrow> (handle_exception w e, [])
      | Inr tp \<Rightarrow>
          if \<not> truthy (float_truth w) tp
          then (\<lparr>status = 400, body = Error_body ''Topic is required''\<rparr>, [])
          else if \<not> has_api_key w
          then (\<lparr>status = 500, body = Error_body ''GEMINI_API_KEY not configured''\<rparr>, [])
          else
            (case bind_result (analyze_topic_with_gemini w tp) (format_response w tp) of
               Inl e \<Rightarrow> (handle_exception w e, [build_prompt (str_other w) tp])
             | Inr result \<Rightarrow>
                 (\<lparr>status = 200, body = Result_body result\<rparr>,
                  [build_prompt (str_other w) tp])))"

definition health_check :: "'f world \<Rightarrow> 'f response \<times> string list" where
  "health_check w =
     (\<lparr>status = 200, body = Health_body ''healthy'' (has_api_key w)\<rparr>, [])"

subsection \<open>What the formatter needs of the payload\<close>

text \<open>
  The formatter subscripts the payload with \<^verbatim>\<open>positive_examples\<close>,
  \<^verbatim>\<open>negative_examples\<close> and \<^verbatim>\<open>sentiment_distribution\<close>, the distribution with
  \<^verbatim>\<open>positive\<close>, \<^verbatim>\<open>negative\<close> and \<^verbatim>\<open>neutral\<close>, and every example with \<^verbatim>\<open>text\<close>.
  \<open>required_present\<close> says that all these keys are there; \<open>well_shaped\<close> says that
  the parts that are there have the expected JSON types: the payload and the
  distribution are objects, the example lists are arrays of objects.
\<close>

fun is_obj :: "'f json \<Rightarrow> bool" where
  "is_obj (JObj kvs) = True"
| "is_obj v = False"

definition has_key :: "'f json \<Rightarrow> string \<Rightarrow> bool" where
  "has_key v k = (case subscript v k of Inl e \<Rightarrow> False | Inr x \<Rightarrow> True)"

definition list_items :: "'f json \<Rightarrow> 'f json list" where
  "list_items v = (case v of JArr xs \<Rightarrow> xs | _ \<Rightarrow> [])"

definition required_present :: "'f json \<Rightarrow> bool" where
  "required_present gd =
     (case (subscript gd ''positive_examples'', subscript gd ''negative_examples'',
            subscript gd ''sentiment_distribution'') of
        (Inr pos, Inr neg, Inr sd) \<Rightarrow>
          has_key sd ''positive'' \<and> has_key sd ''negative'' \<and> has_key sd ''neutral'' \<and>
          list_all (\<lambda>ex. has_key ex ''text'') (list_items pos @ list_items neg)
      | _ \<Rightarrow> False)"

definition shaped_examples :: "'f json \<Rightarrow> bool" where
  "shaped_examples v = (case v of JArr xs \<Rightarrow> list_all is_obj xs | _ \<Rightarrow> False)"

definition well_shaped :: "'f json \<Rightarrow> bool" where
  "well_shaped gd =
     (is_obj gd \<and>
      (case subscript gd ''positive_examples'' of Inl e \<Rightarrow> True | Inr v \<Rightarrow> shaped_examples v) \<and>
      (case subscript gd ''negative_examples'' of Inl e \<Rightarrow> True | Inr v \<Rightarrow> shaped_examples v) \<and>
      (case subscript gd ''sentiment_distribution'' of Inl e \<Rightarrow> True | Inr v \<Rightarrow> is_obj v))"

definition required_keys :: "string set" where
  "required_keys = {''positive_examples'', ''negative_examples'', ''sentiment_distribution'',
                    ''positive'', ''negative'', ''neutral'', ''text''}"

subsection \<open>Sample inputs\<close>

text \<open>
  Concrete worlds, requests and payloads at which the theorems below are evaluated.
  \<open>sample_world env reply table\<close> has the environment \<open>env\<close>, a remote API that answers
  \<open>reply\<close>, and a \<^verbatim>\<open>json.loads\<close> that parses the texts listed in \<open>table\<close> and rejects
  every other text with a \<^verbatim>\<open>JSONDecodeError\<close>. \<open>deep_world\<close> is a world whose remote API
  answers \<open>deep_text\<close>, a hundred thousand opening brackets, on which \<^verbatim>\<open>json.loads\<close>
  raises \<^verbatim>\<open>RecursionError\<close>.
\<close>

definition sample_world ::
  "(string \<rightharpoonup> string) \<Rightarrow> (py_error + string) \<Rightarrow> (string \<times> unit json) list \<Rightarrow> unit world"
where
  "sample_world env reply table =
     \<lparr>environ = env,
      generate_content = (\<lambda>prompt. reply),
      json_loads = (\<lambda>s. case map_of table s of
                           None \<Rightarrow>
                             Inl (JSONDecodeError ''Expecting value: line 1 column 1 (char 0)'')
                         | Some v \<Rightarrow> Inr v),
      today = (\<lambda>n. ''2024-05-01''),
      isoformat = (\<lambda>n. ''2024-05-01T12:00:00''),
      float_truth = (\<lambda>x. True),
      str_other = (\<lambda>v. ''?''),
      str_exc = (\<lambda>e. case e of
                        KeyError k \<Rightarrow> [CHR 0x27] @ k @ [CHR 0x27]
                      | JSONDecodeError m \<Rightarrow> m
                      | RemoteError m \<Rightarrow> m
                      | RecursionError \<Rightarrow> ''maximum recursion depth exceeded''
                      | _ \<Rightarrow> ''error'')\<rparr>"

definition sample_payload :: "nat \<Rightarrow> nat \<Rightarrow> unit json" where
  "sample_payload n m =
     JObj [(''sentiment_distribution'',
              JObj [(''positive'', JInt 150), (''negative'', JInt (- 20)), (''neutral'', JInt 7)]),
           (''positive_examples'',
              JArr (replicate n (JObj [(''text'', JStr ''love it''), (''reasoning'', JStr ''fans'')]))),
           (''negative_examples'',
              JArr (replicate m (JObj [(''text'', JStr ''hate it'')])))]"

definition sample_json_text :: string where
  \<open>sample_json_text =
     ''{"sentiment_distribution": {"positive": 150, "negative": -20, "neutral": 7}, '' @
     ''"positive_examples": [{"text": "love it", "reasoning": "fans"}], '' @
     ''"negative_examples": []}''\<close>

definition sample_reply :: string where
  "sample_reply = ''```json'' @ nl @ sample_json_text @ nl @ ''```''"

definition sample_table :: "(string \<times> unit json) list" where
  "sample_table = [(sample_json_text, sample_payload 1 0)]"

definition sample_request :: "py_error + unit json" where
  "sample_request = Inr (JObj [(''topic'', JStr ''cats'')])"

definition sample_env :: "string \<rightharpoonup> string" where
  "sample_env = [''GEMINI_API_KEY'' \<mapsto> ''secret'']"

definition strings_payload :: "unit json" where
  "strings_payload =
     JObj [(''sentiment_distribution'',
              JObj [(''positive'', JInt 60), (''negative'', JInt 30), (''neutral'', JInt 10)]),
           (''positive_examples'', JArr [JStr ''love it'']),
           (''negative_examples'', JArr [JStr ''hate it''])]"

definition no_negative_payload :: "unit json" where
  "no_negative_payload =
     JObj [(''sentiment_distribution'',
              JObj [(''positive'', JInt 60), (''negative'', JInt 30), (''neutral'', JInt 10)]),
           (''positive_examples'', JArr [JObj [(''text'', JStr ''love it'')]])]"

definition no_negative_text :: string where
  \<open>no_negative_text =
     ''{"sentiment_distribution": {"positive": 60, "negative": 30, "neutral": 10}, '' @
     ''"positive_examples": [{"text": "love it"}]}''\<close>

definition no_negative_world :: "unit world" where
  "no_negative_world =
     sample_world sample_env (Inr no_negative_text) [(no_negative_text, no_negative_payload)]"

definition prose_world :: "unit world" where
  "prose_world = sample_world sample_env (Inr ''Sorry, I cannot help with that.'') sample_table"

definition offline_world :: "unit world" where
  "offline_world = sample_world sample_env (Inl (RemoteError ''503 Service Unavailable'')) sample_table"

definition unconfigured_world :: "unit world" where
  "unconfigured_world = sample_world Map.empty (Inr sample_reply) sample_table"

definition deep_text :: string where
  "deep_text = replicate 100000 (CHR ''['')"

definition deep_world :: "unit world" where
  "deep_world =
     (sample_world sample_env (Inr deep_text) sample_table)
       \<lparr>json_loads := (\<lambda>s. if s = deep_text then Inl RecursionError
                              else json_loads (sample_world sample_env (Inr deep_text) sample_table) s)\<rparr>"

definition second_fence_text :: string where
  \<open>second_fence_text = ''```json'' @ nl @ ''{"a": 1}'' @ nl @ ''````json''\<close>

section \<open>Properties\<close>

subsection \<open>Strings\<close>

lemma split_from_before:
  "sep \<noteq> [] \<Longrightarrow> split_from sep acc s =
     (rev acc @ before sep s) # (if py_in sep s then split_from sep [] (after sep s) else [])"
proof (induction sep acc s rule: split_from.induct)
  case (1 sep acc s)
  show ?case
  proof (cases s)
    case Nil
    with 1(3) show ?thesis by (simp add: split_from.simps [of sep acc "[]"])
  next
    case (Cons c cs)
    show ?thesis
    proof (cases "prefix sep s")
      case True
      with Cons 1(3) show ?thesis
        by (simp add: split_from.simps [of sep acc "c # cs"])
    next
      case False
      with Cons 1(3) 1(2) show ?thesis
        by (simp add: split_from.simps [of sep acc "c # cs"])
    qed
  qed
qed

lemma split_from_hd: "sep \<noteq> [] \<Longrightarrow> \<exists>rest. split_from sep [] s = before sep s # rest"
  using split_from_before [of sep "[]" s] by simp

lemma before_no_occurrence: "\<not> py_in sep s \<Longrightarrow> before sep s = s"
  by (induction s) auto

lemma before_prefix: "prefix (before sep s) s"
  by (induction s) auto

lemma before_free: "sep \<noteq> [] \<Longrightarrow> \<not> py_in sep (before sep s)"
proof (induction s)
  case Nil
  then show ?case by simp
next
  case (Cons c cs)
  have "prefix sep (c # before sep cs) \<Longrightarrow> prefix sep (c # cs)"
    using before_prefix [of sep cs] by (meson Cons_prefix_Cons prefix_order.trans)
  with Cons show ?case by auto
qed

lemma before_idem: "sep \<noteq> [] \<Longrightarrow> before sep (before sep s) = before sep s"
  by (simp add: before_no_occurrence before_free)

lemma rstrip_keeps_head:
  assumes "u = [] \<or> \<not> P (hd u)"
  shows "dropWhile P (rev (dropWhile P (rev u))) = rev (dropWhile P (rev u))"
proof (cases "rev (dropWhile P (rev u))")
  case Nil
  show ?thesis by (simp only: Nil dropWhile.simps)
next
  case (Cons a w)
  have "rev u = takeWhile P (rev u) @ dropWhile P (rev u)" by simp
  then have "u = rev (dropWhile P (rev u)) @ rev (takeWhile P (rev u))"
    by (metis rev_append rev_rev_ident)
  with Cons have "u = a # w @ rev (takeWhile P (rev u))" by simp
  then have "u \<noteq> []" "hd u = a" by (metis list.distinct(1), metis list.sel(1))
  with assms have "\<not> P a" by simp
  with Cons show ?thesis by simp
qed

lemma strip_drop: "dropWhile is_space (strip s) = strip s"
  unfolding strip_def
  by (rule rstrip_keeps_head) (metis hd_dropWhile)

lemma strip_idem: "strip (strip s) = strip s"
  using strip_drop[of s] unfolding strip_def by (simp add: dropWhile_idem)

lemma split_index_split_eq:
  assumes "sep \<noteq> []" "py_in sep s"
  shows "split_index_split sep s = Inr (strip (before fence (before sep (after sep s))))"
proof -
  obtain r1 where r1: "split_from sep [] (after sep s) = before sep (after sep s) # r1"
    using split_from_hd [OF assms(1)] by blast
  have a: "split_from sep [] s = before sep s # before sep (after sep s) # r1"
    using split_from_before [OF assms(1), of "[]" s] assms(2) r1 by simp
  have f: "fence \<noteq> []" by (simp add: fence_def)
  obtain r2 where r2: "split_from fence [] (before sep (after sep s))
      = before fence (before sep (after sep s)) # r2"
    using split_from_hd [OF f] by blast
  show ?thesis
    using assms(1) a r2 f by (simp add: split_index_split_def py_split_def index_def)
qed


lemma before_fence_idem: "before fence (before fence s) = before fence s"
  by (rule before_idem) (simp add: fence_def)


lemma extract_json_cases:
  "extract_json raw =
     Inr (if py_in fence_json (strip raw)
          then strip (before fence (before fence_json (after fence_json (strip raw))))
          else if py_in fence (strip raw) then strip (before fence (after fence (strip raw)))
          else strip raw)"
proof -
  have fj: "fence_json \<noteq> []" and f: "fence \<noteq> []"
    by (simp_all add: fence_json_def fence_def)
  show ?thesis
    unfolding extract_json_def Let_def
    by (simp add: split_index_split_eq [OF fj] split_index_split_eq [OF f] before_fence_idem)
qed

lemma is_space_nl: "is_space (CHR 0x0A)"
  by (simp add: is_space_def)

lemma not_space_backtick: "\<not> is_space (CHR 0x60)"
  by (simp add: is_space_def)

lemma strip_snoc_space: "is_space c \<Longrightarrow> strip (s @ [c]) = strip s"
proof (cases "\<forall>x\<in>set s. is_space x")
  case True
  then have e: "dropWhile is_space s = []" by (simp add: dropWhile_eq_Nil_conv)
  assume "is_space c"
  with True have e2: "dropWhile is_space (s @ [c]) = []" by (simp add: dropWhile_eq_Nil_conv)
  show ?thesis by (simp only: strip_def e e2)
next
  case False
  moreover assume "is_space c"
  ultimately show ?thesis by (auto simp: strip_def dropWhile_append)
qed

lemma strip_cons_space: "is_space c \<Longrightarrow> strip (c # s) = strip s"
  by (simp add: strip_def)

lemma strip_wrap_json: "strip (wrap_json J) = wrap_json J"
  by (simp add: strip_def wrap_json_def fence_def fence_json_def is_space_def)

lemma prefix_fence_append:
  "prefix fence (J @ CHR 0x0A # X) \<Longrightarrow> prefix fence J"
proof (cases J)
  case Nil
  assume "prefix fence (J @ CHR 0x0A # X)"
  with Nil show ?thesis by (simp add: fence_def)
next
  case c1: (Cons a J1)
  assume p: "prefix fence (J @ CHR 0x0A # X)"
  show ?thesis
  proof (cases J1)
    case Nil
    with c1 p show ?thesis by (simp add: fence_def)
  next
    case c2: (Cons b J2)
    show ?thesis
    proof (cases J2)
      case Nil
      with c1 c2 p show ?thesis by (simp add: fence_def)
    next
      case (Cons c J3)
      with c1 c2 p show ?thesis by (auto simp: fence_def)
    qed
  qed
qed

lemma prefix_fence_json_fence: "prefix fence_json s \<Longrightarrow> prefix fence s"
  by (auto simp: fence_json_def fence_def prefix_def)

lemma before_fence_closing:
  "\<not> py_in fence J \<Longrightarrow> before fence (J @ CHR 0x0A # fence) = J @ [CHR 0x0A]"
proof (induction J)
  case Nil
  show ?case by (simp add: fence_def)
next
  case (Cons c cs)
  then have np: "\<not> prefix fence (c # cs)" and ih: "before fence (cs @ CHR 0x0A # fence) = cs @ [CHR 0x0A]"
    by auto
  from np prefix_fence_append [of "c # cs" fence]
  have "\<not> prefix fence (c # cs @ CHR 0x0A # fence)" by auto
  with ih show ?case by simp
qed

lemma no_fence_json_closing:
  "\<not> py_in fence J \<Longrightarrow> \<not> py_in fence_json (J @ CHR 0x0A # fence)"
proof (induction J)
  case Nil
  show ?case by (simp add: fence_def fence_json_def)
next
  case (Cons c cs)
  then have np: "\<not> prefix fence (c # cs)" and ih: "\<not> py_in fence_json (cs @ CHR 0x0A # fence)"
    by auto
  from np prefix_fence_append [of "c # cs" fence] prefix_fence_json_fence [of "c # cs @ CHR 0x0A # fence"]
  have "\<not> prefix fence_json (c # cs @ CHR 0x0A # fence)" by auto
  with ih show ?case by simp
qed

lemma extract_json_wrap_json:
  assumes "\<not> py_in fence J"
  shows "extract_json (wrap_json J) = Inr (strip J)"
proof -
  have w: "wrap_json J = fence_json @ CHR 0x0A # J @ CHR 0x0A # fence"
    by (simp add: wrap_json_def)
  have i: "py_in fence_json (wrap_json J)"
    by (simp add: w fence_json_def)
  have a: "after fence_json (wrap_json J) = CHR 0x0A # J @ CHR 0x0A # fence"
    by (simp add: w fence_json_def)
  have b: "before fence_json (CHR 0x0A # J @ CHR 0x0A # fence) = CHR 0x0A # J @ CHR 0x0A # fence"
    using no_fence_json_closing [OF assms]
    by (intro before_no_occurrence) (simp add: fence_json_def)
  have c: "before fence (CHR 0x0A # J @ CHR 0x0A # fence) = CHR 0x0A # J @ [CHR 0x0A]"
    using before_fence_closing [OF assms] by (simp add: fence_def)
  have d: "strip (CHR 0x0A # J @ [CHR 0x0A]) = strip J"
    using strip_snoc_space [OF is_space_nl, of "CHR 0x0A # J"] strip_cons_space [OF is_space_nl, of J]
    by simp
  from extract_json_cases [of "wrap_json J"]
  have "extract_json (wrap_json J)
      = Inr (strip (before fence (before fence_json (after fence_json (wrap_json J)))))"
    by (simp only: strip_wrap_json i if_True)
  then show ?thesis by (simp only: a b c d)
qed

subsection \<open>Extraction of the JSON candidate\<close>

lemma extract_json_agrees:
  assumes "\<not> py_in fence_json (after fence_json (strip raw))"
  shows "extract_json raw = Inr (spec_extract raw)"
  using assms unfolding spec_extract_def Let_def extract_json_cases [of raw]
  by (simp add: before_no_occurrence strip_idem)

lemma analyze_topic_with_gemini_eq:
  assumes "generate_content w (build_prompt (str_other w) tp) = Inr raw"
    "extract_json raw = Inr c"
  shows "analyze_topic_with_gemini w tp = json_loads w c"
  using assms by (simp add: analyze_topic_with_gemini_def bind_result_def)

text \<open>
  Claim C3: after stripping, with a \<^verbatim>\<open>```json\<close> delimiter in the text the candidate is
  the content between that delimiter and the next \<^verbatim>\<open>```\<close>; otherwise, with a \<^verbatim>\<open>```\<close>,
  the content between the first pair; otherwise the full text; the candidate is
  stripped and parsed. The second branch does this, and so does the first as long as
  no second \<^verbatim>\<open>```json\<close> follows (lemma \<open>extract_json_agrees\<close>). But
  \<^verbatim>\<open>split('```json')\<close> is called without a limit, so its piece number 1 ends at the
  next \<^verbatim>\<open>```json\<close>, and \<^verbatim>\<open>split('```')[0]\<close> looks for the closing \<^verbatim>\<open>```\<close> only inside
  that piece. In \<open>second_fence_text\<close> the block is closed by four backticks followed by
  \<^verbatim>\<open>json\<close>: the closing \<^verbatim>\<open>```\<close> begins one character in front of the second
  \<^verbatim>\<open>```json\<close>, the code does not see it, and a backtick stays in the candidate, where
  the content up to the next \<^verbatim>\<open>```\<close> is \<^verbatim>\<open>{"a": 1}\<close>.
\<close>

theorem extract_json_second_fence:
  \<open>extract_json second_fence_text = Inr (''{"a": 1}'' @ nl @ ''`'')
   \<and> spec_extract second_fence_text = ''{"a": 1}''\<close>
  by code_simp

text \<open>
  Claim C5: for a JSON text \<open>J\<close> wrapped as \<^verbatim>\<open>```json\<close>, newline, \<open>J\<close>, newline,
  \<^verbatim>\<open>```\<close>, extraction followed by parsing gives what parsing \<open>J\<close> gives. The JSON text
  \<^verbatim>\<open>{"a": "```"}\<close> holds the delimiter inside a string; the code cuts there and hands
  the unterminated text \<^verbatim>\<open>{"a": "\<close> to \<^verbatim>\<open>json.loads\<close>. (For a \<open>J\<close> without \<^verbatim>\<open>```\<close> the
  candidate is \<open>strip J\<close>: lemma \<open>extract_json_wrap_json\<close>.)
\<close>

theorem extract_json_embedded_fence:
  \<open>extract_json (wrap_json ''{"a": "```"}'') = Inr ''{"a": "''\<close>
  by code_simp

subsection \<open>The formatter\<close>

lemma bind_result_Inr: "bind_result x f = Inr y \<longleftrightarrow> (\<exists>v. x = Inr v \<and> f v = Inr y)"
  by (cases x) (simp_all add: bind_result_def)

lemma bind_result_Inl:
  "bind_result x f = Inl e \<longleftrightarrow> x = Inl e \<or> (\<exists>v. x = Inr v \<and> f v = Inl e)"
  by (cases x) (simp_all add: bind_result_def)

lemma bind_result_InlE:
  assumes "bind_result x f = Inl e"
  obtains "x = Inl e" | v where "x = Inr v" "f v = Inl e"
  using assms by (auto simp: bind_result_Inl)

lemma convert_examples_Inr:
  "convert_examples w label base first t i items = Inr exs \<Longrightarrow>
   length exs = length items \<and>
   (\<forall>j < length items.
      subscript (items ! j) ''text'' = Inr (ex_text (exs ! j)) \<and>
      py_get (items ! j) ''reasoning'' (JStr []) = Inr (ex_reasoning (exs ! j)) \<and>
      ex_sentiment (exs ! j) = label \<and>
      ex_score (exs ! j) = base - int (i + j) * 15 \<and>
      ex_type (exs ! j) = ''opinion'' \<and>
      ex_author (exs ! j) = ''user_'' @ str_int (int (i + j) + first) \<and>
      ex_created (exs ! j) = today w (t + (i + j)))"
proof (induction items arbitrary: i exs)
  case Nil
  then show ?case by simp
next
  case (Cons ex items)
  from Cons.prems obtain tx why rest where
    s: "subscript ex ''text'' = Inr tx" and
    g: "py_get ex ''reasoning'' (JStr []) = Inr why" and
    r: "convert_examples w label base first t (Suc i) items = Inr rest" and
    e: "exs = \<lparr>ex_text = tx, ex_sentiment = label, ex_score = base - int i * 15,
               ex_type = ''opinion'', ex_author = ''user_'' @ str_int (int i + first),
               ex_created = today w (t + i), ex_reasoning = why\<rparr> # rest"
    by (auto simp: bind_result_Inr)
  note ih = Cons.IH [OF r]
  show ?case
  proof (intro conjI allI impI)
    show "length exs = length (ex # items)" using ih e by simp
  next
    fix j assume "j < length (ex # items)"
    then show "subscript ((ex # items) ! j) ''text'' = Inr (ex_text (exs ! j))"
      using ih e s by (cases j) auto
  qed (use ih e s g in \<open>auto simp: nth_Cons ac_simps split: nat.splits\<close>)
qed

lemma format_response_Inr:
  assumes "format_response w tp gd = Inr r"
  obtains pos pitems pex neg nitems nex sd p n u summary where
    "subscript gd ''positive_examples'' = Inr pos"
    "py_iter pos = Inr pitems"
    "convert_examples w ''positive'' 100 1 0 0 pitems = Inr pex"
    "subscript gd ''negative_examples'' = Inr neg"
    "py_iter neg = Inr nitems"
    "convert_examples w ''negative'' 95 6 (length pitems) 0 nitems = Inr nex"
    "subscript gd ''sentiment_distribution'' = Inr sd"
    "subscript sd ''positive'' = Inr p"
    "subscript sd ''negative'' = Inr n"
    "subscript sd ''neutral'' = Inr u"
    "py_get gd ''analysis_summary'' (JStr []) = Inr summary"
    "r = \<lparr>topic = tp,
          total_analyzed = ''AI Analysis'',
          posts_analyzed = ''Multiple Sources'',
          sentiment_distribution = \<lparr>positive = p, negative = n, neutral = u\<rparr>,
          positive_perspective =
            \<lparr>percentage = p, count = py_str (str_other w) p @ ''%'', examples = pex\<rparr>,
          negative_perspective =
            \<lparr>percentage = n, count = py_str (str_other w) n @ ''%'', examples = nex\<rparr>,
          neutral_count = py_str (str_other w) u @ ''%'',
          analysis_summary = summary,
          timestamp = isoformat w (length pitems + length nitems),
          powered_by = ''Gemini 2.0 Flash''\<rparr>"
  using assms unfolding format_response_def bind_result_Inr by (elim exE conjE) (rule that, auto)

lemma map_nth_5:
  "length xs = 5 \<Longrightarrow> map f xs = [f (xs ! 0), f (xs ! 1), f (xs ! 2), f (xs ! 3), f (xs ! 4)]"
  by (auto simp: eval_nat_numeral length_Suc_conv)

text \<open>
  Claim C1: the example at index \<open>i\<close> (from 0) of the positive group has score
  \<open>100 - 15 * i\<close> and author \<^verbatim>\<open>user_\<close> followed by \<open>i + 1\<close>; in the negative group the
  score is \<open>95 - 15 * i\<close> and the author number \<open>i + 6\<close>. Nothing is clamped. The groups
  are as long as the upstream lists, and for five items the scores are 100, 85, 70,
  55, 40 and 95, 80, 65, 50, 35.
\<close>

theorem format_response_scores:
  assumes "format_response w tp gd = Inr r"
  shows "(\<forall>i < length (examples (positive_perspective r)).
            ex_score (examples (positive_perspective r) ! i) = 100 - 15 * int i \<and>
            ex_author (examples (positive_perspective r) ! i) = ''user_'' @ str_int (int i + 1))
       \<and> (\<forall>i < length (examples (negative_perspective r)).
            ex_score (examples (negative_perspective r) ! i) = 95 - 15 * int i \<and>
            ex_author (examples (negative_perspective r) ! i) = ''user_'' @ str_int (int i + 6))
       \<and> (\<forall>ps. subscript gd ''positive_examples'' = Inr (JArr ps) \<longrightarrow>
            length (examples (positive_perspective r)) = length ps)
       \<and> (\<forall>ns. subscript gd ''negative_examples'' = Inr (JArr ns) \<longrightarrow>
            length (examples (negative_perspective r)) = length ns)
       \<and> (length (examples (positive_perspective r)) = 5 \<longrightarrow>
            map ex_score (examples (positive_perspective r)) = [100, 85, 70, 55, 40])
       \<and> (length (examples (negative_perspective r)) = 5 \<longrightarrow>
            map ex_score (examples (negative_perspective r)) = [95, 80, 65, 50, 35])"
proof -
  from assms obtain pos pitems pex neg nitems nex where
    sp: "subscript gd ''positive_examples'' = Inr pos" and ip: "py_iter pos = Inr pitems" and
    cp: "convert_examples w ''positive'' 100 1 0 0 pitems = Inr pex" and
    sn: "subscript gd ''negative_examples'' = Inr neg" and ineg: "py_iter neg = Inr nitems" and
    cn: "convert_examples w ''negative'' 95 6 (length pitems) 0 nitems = Inr nex" and
    ep: "examples (positive_perspective r) = pex" and
    en: "examples (negative_perspective r) = nex"
    by (rule format_response_Inr) simp
  note P = convert_examples_Inr [OF cp] and N = convert_examples_Inr [OF cn]
  have a: "\<forall>i < length pex. ex_score (pex ! i) = 100 - 15 * int i \<and>
      ex_author (pex ! i) = ''user_'' @ str_int (int i + 1)"
    using P by simp
  have b: "\<forall>i < length nex. ex_score (nex ! i) = 95 - 15 * int i \<and>
      ex_author (nex ! i) = ''user_'' @ str_int (int i + 6)"
    using N by simp
  have c: "length pex = length ps" if "subscript gd ''positive_examples'' = Inr (JArr ps)" for ps
    using that sp ip P by auto
  have d: "length nex = length ns" if "subscript gd ''negative_examples'' = Inr (JArr ns)" for ns
    using that sn ineg N by auto
  have e: "map ex_score pex = [100, 85, 70, 55, 40]" if "length pex = 5"
    using a that by (simp add: map_nth_5)
  have f: "map ex_score nex = [95, 80, 65, 50, 35]" if "length nex = 5"
    using b that by (simp add: map_nth_5)
  from a b c d e f show ?thesis unfolding ep en by blast
qed

theorem format_response_scores_witness:
  "(case format_response (sample_world Map.empty (Inl TypeError) []) (JStr ''cats'')
           (sample_payload 5 8) of
      Inl e \<Rightarrow> False
    | Inr r \<Rightarrow>
        map ex_score (examples (positive_perspective r)) = [100, 85, 70, 55, 40] \<and>
        length (examples (negative_perspective r)) = 8 \<and>
        ex_score (examples (negative_perspective r) ! 7) = - 10 \<and>
        ex_author (examples (negative_perspective r) ! 7) = ''user_13'')"
proof -
  let ?w = "sample_world Map.empty (Inl TypeError) []"
  let ?gd = "sample_payload 5 8"
  have "case format_response ?w (JStr ''cats'') ?gd of Inl e \<Rightarrow> False | Inr r \<Rightarrow> True"
    by code_simp
  then obtain r where r: "format_response ?w (JStr ''cats'') ?gd = Inr r"
    by (auto split: sum.splits)
  have p: "subscript ?gd ''positive_examples''
      = Inr (JArr (replicate 5 (JObj [(''text'', JStr ''love it''), (''reasoning'', JStr ''fans'')])))"
    by code_simp
  have n: "subscript ?gd ''negative_examples''
      = Inr (JArr (replicate 8 (JObj [(''text'', JStr ''hate it'')])))"
    by code_simp
  have s: "str_int (int 7 + 6) = ''13''" by code_simp
  from format_response_scores [OF r] p n s show ?thesis
    unfolding r by simp
qed

lemma analyze_topic_reached:
  assumes "bind_result req (\<lambda>data. py_get data ''topic'' (JStr [])) = Inr tp"
    "truthy (float_truth w) tp" "has_api_key w"
  shows "analyze_topic w req =
    (case bind_result (analyze_topic_with_gemini w tp) (format_response w tp) of
       Inl e \<Rightarrow> (handle_exception w e, [build_prompt (str_other w) tp])
     | Inr result \<Rightarrow>
         (\<lparr>status = 200, body = Result_body result\<rparr>, [build_prompt (str_other w) tp]))"
  using assms by (simp add: analyze_topic_def)

lemma analyze_topic_status_200:
  assumes "status (fst (analyze_topic w req)) = 200"
    "bind_result req (\<lambda>data. py_get data ''topic'' (JStr [])) = Inr tp"
    "analyze_topic_with_gemini w tp = Inr gd"
  shows "\<exists>r. format_response w tp gd = Inr r \<and> body (fst (analyze_topic w req)) = Result_body r"
  using assms
  by (auto simp: analyze_topic_def handle_exception_def bind_result_def split: sum.splits if_splits)

text \<open>
  Claim C4, as the specification has it: in every successful response both
  perspective groups hold exactly five examples, however many entries the upstream
  lists contain. The formatter neither pads nor truncates: an upstream answer with one
  positive and no negative example gives a 200 response with one and no example.
\<close>

theorem five_examples_counterexample:
  "fst (analyze_topic (sample_world sample_env (Inr sample_reply) sample_table) sample_request)
     = \<lparr>status = 200,
        body = Result_body
          \<lparr>topic = JStr ''cats'',
           total_analyzed = ''AI Analysis'',
           posts_analyzed = ''Multiple Sources'',
           sentiment_distribution =
             \<lparr>positive = JInt 150, negative = JInt (- 20), neutral = JInt 7\<rparr>,
           positive_perspective =
             \<lparr>percentage = JInt 150,
              count = ''150%'',
              examples =
                [\<lparr>ex_text = JStr ''love it'',
                  ex_sentiment = ''positive'',
                  ex_score = 100,
                  ex_type = ''opinion'',
                  ex_author = ''user_1'',
                  ex_created = ''2024-05-01'',
                  ex_reasoning = JStr ''fans''\<rparr>]\<rparr>,
           negative_perspective =
             \<lparr>percentage = JInt (- 20), count = ''-20%'', examples = []\<rparr>,
           neutral_count = ''7%'',
           analysis_summary = JStr [],
           timestamp = ''2024-05-01T12:00:00'',
           powered_by = ''Gemini 2.0 Flash''\<rparr>\<rparr>"
  by code_simp

text \<open>
  Claim C4, amended: in every successful response each perspective group holds
  exactly as many examples as the corresponding upstream list, in the same order (the
  text of the \<open>i\<close>-th example is the text of the \<open>i\<close>-th upstream entry); five when
  the upstream list has five.
\<close>

theorem format_response_example_count:
  assumes "status (fst (analyze_topic w req)) = 200"
    "bind_result req (\<lambda>data. py_get data ''topic'' (JStr [])) = Inr tp"
    "analyze_topic_with_gemini w tp = Inr gd"
  shows "\<exists>r. body (fst (analyze_topic w req)) = Result_body r
    \<and> format_response w tp gd = Inr r
    \<and> (\<forall>ps. subscript gd ''positive_examples'' = Inr (JArr ps) \<longrightarrow>
          length (examples (positive_perspective r)) = length ps \<and>
          (\<forall>i < length ps.
             subscript (ps ! i) ''text'' = Inr (ex_text (examples (positive_perspective r) ! i))))
    \<and> (\<forall>ns. subscript gd ''negative_examples'' = Inr (JArr ns) \<longrightarrow>
          length (examples (negative_perspective r)) = length ns \<and>
          (\<forall>i < length ns.
             subscript (ns ! i) ''text'' = Inr (ex_text (examples (negative_perspective r) ! i))))"
proof -
  from analyze_topic_status_200 [OF assms] obtain r where
    r: "format_response w tp gd = Inr r" and b: "body (fst (analyze_topic w req)) = Result_body r"
    by blast
  from r obtain pos pitems pex neg nitems nex where
    sp: "subscript gd ''positive_examples'' = Inr pos" and ip: "py_iter pos = Inr pitems" and
    cp: "convert_examples w ''positive'' 100 1 0 0 pitems = Inr pex" and
    sn: "subscript gd ''negative_examples'' = Inr neg" and ineg: "py_iter neg = Inr nitems" and
    cn: "convert_examples w ''negative'' 95 6 (length pitems) 0 nitems = Inr nex" and
    ep: "examples (positive_perspective r) = pex" and
    en: "examples (negative_perspective r) = nex"
    by (rule format_response_Inr) simp
  note P = convert_examples_Inr [OF cp] and N = convert_examples_Inr [OF cn]
  have p: "length (examples (positive_perspective r)) = length ps \<and>
      (\<forall>i < length ps.
         subscript (ps ! i) ''text'' = Inr (ex_text (examples (positive_perspective r) ! i)))"
    if "subscript gd ''positive_examples'' = Inr (JArr ps)" for ps
    using that sp ip P unfolding ep by auto
  have n: "length (examples (negative_perspective r)) = length ns \<and>
      (\<forall>i < length ns.
         subscript (ns ! i) ''text'' = Inr (ex_text (examples (negative_perspective r) ! i)))"
    if "subscript gd ''negative_examples'' = Inr (JArr ns)" for ns
    using that sn ineg N unfolding en by auto
  from r b p n show ?thesis by blast
qed

theorem format_response_example_count_witness:
  "(case body (fst (analyze_topic (sample_world sample_env (Inr sample_reply) sample_table)
                      sample_request)) of
      Result_body r \<Rightarrow>
        length (examples (positive_perspective r)) = 1 \<and>
        ex_text (examples (positive_perspective r) ! 0) = JStr ''love it'' \<and>
        length (examples (negative_perspective r)) = 0
    | _ \<Rightarrow> False)"
proof -
  let ?w = "sample_world sample_env (Inr sample_reply) sample_table"
  have h1: "status (fst (analyze_topic ?w sample_request)) = 200" by code_simp
  have h2: "bind_result sample_request (\<lambda>data. py_get data ''topic'' (JStr [])) = Inr (JStr ''cats'')"
    by code_simp
  have h3: "analyze_topic_with_gemini ?w (JStr ''cats'') = Inr (sample_payload 1 0)"
    by code_simp
  have p: "subscript (sample_payload 1 0) ''positive_examples''
      = Inr (JArr [JObj [(''text'', JStr ''love it''), (''reasoning'', JStr ''fans'')]])"
    by code_simp
  have n: "subscript (sample_payload 1 0) ''negative_examples'' = Inr (JArr [])"
    by code_simp
  from format_response_example_count [OF h1 h2 h3] obtain r where
    b: "body (fst (analyze_topic ?w sample_request)) = Result_body r" and
    P: "\<forall>ps. subscript (sample_payload 1 0) ''positive_examples'' = Inr (JArr ps) \<longrightarrow>
          length (examples (positive_perspective r)) = length ps \<and>
          (\<forall>i < length ps.
             subscript (ps ! i) ''text'' = Inr (ex_text (examples (positive_perspective r) ! i)))" and
    N: "\<forall>ns. subscript (sample_payload 1 0) ''negative_examples'' = Inr (JArr ns) \<longrightarrow>
          length (examples (negative_perspective r)) = length ns \<and>
          (\<forall>i < length ns.
             subscript (ns ! i) ''text'' = Inr (ex_text (examples (negative_perspective r) ! i)))"
    by blast
  from P [rule_format, OF p] N [rule_format, OF n] show ?thesis
    unfolding b by simp
qed

text \<open>
  Claim C8: the three fields of \<^verbatim>\<open>sentiment_distribution\<close> appear unchanged in the
  result, whatever their values; the percentage of each perspective is the
  corresponding field, and its count is \<^verbatim>\<open>str\<close> of that field followed by \<^verbatim>\<open>%\<close> (so
  for an integer its decimal digits and \<^verbatim>\<open>%\<close>), likewise \<^verbatim>\<open>neutral_count\<close>; a missing
  \<^verbatim>\<open>analysis_summary\<close> becomes the empty string.
\<close>

theorem format_response_distribution:
  assumes "format_response w tp gd = Inr r"
    "subscript gd ''sentiment_distribution'' = Inr sd"
  shows "subscript sd ''positive'' = Inr (positive (sentiment_distribution r))
    \<and> subscript sd ''negative'' = Inr (negative (sentiment_distribution r))
    \<and> subscript sd ''neutral'' = Inr (neutral (sentiment_distribution r))
    \<and> percentage (positive_perspective r) = positive (sentiment_distribution r)
    \<and> percentage (negative_perspective r) = negative (sentiment_distribution r)
    \<and> count (positive_perspective r)
        = py_str (str_other w) (positive (sentiment_distribution r)) @ ''%''
    \<and> count (negative_perspective r)
        = py_str (str_other w) (negative (sentiment_distribution r)) @ ''%''
    \<and> neutral_count r = py_str (str_other w) (neutral (sentiment_distribution r)) @ ''%''
    \<and> (\<forall>k. positive (sentiment_distribution r) = JInt k \<longrightarrow>
          count (positive_perspective r) = str_int k @ ''%'')
    \<and> (\<forall>k. negative (sentiment_distribution r) = JInt k \<longrightarrow>
          count (negative_perspective r) = str_int k @ ''%'')
    \<and> (\<forall>k. neutral (sentiment_distribution r) = JInt k \<longrightarrow> neutral_count r = str_int k @ ''%'')
    \<and> py_get gd ''analysis_summary'' (JStr []) = Inr (analysis_summary r)
    \<and> (\<forall>kvs. gd = JObj kvs \<and> map_of kvs ''analysis_summary'' = None \<longrightarrow>
          analysis_summary r = JStr [])"
  using assms(1)
proof (rule format_response_Inr)
  fix pos pitems pex neg nitems nex sd' p n u summary
  assume sd': "subscript gd ''sentiment_distribution'' = Inr sd'"
    and k: "subscript sd' ''positive'' = Inr p" "subscript sd' ''negative'' = Inr n"
      "subscript sd' ''neutral'' = Inr u"
    and s: "py_get gd ''analysis_summary'' (JStr []) = Inr summary"
    and r: "r = \<lparr>topic = tp,
          total_analyzed = ''AI Analysis'',
          posts_analyzed = ''Multiple Sources'',
          sentiment_distribution = \<lparr>positive = p, negative = n, neutral = u\<rparr>,
          positive_perspective =
            \<lparr>percentage = p, count = py_str (str_other w) p @ ''%'', examples = pex\<rparr>,
          negative_perspective =
            \<lparr>percentage = n, count = py_str (str_other w) n @ ''%'', examples = nex\<rparr>,
          neutral_count = py_str (str_other w) u @ ''%'',
          analysis_summary = summary,
          timestamp = isoformat w (length pitems + length nitems),
          powered_by = ''Gemini 2.0 Flash''\<rparr>"
  from sd' assms(2) have "sd' = sd" by simp
  with k s show ?thesis unfolding r by auto
qed

theorem format_response_distribution_witness:
  "(case format_response (sample_world Map.empty (Inl TypeError) []) (JStr ''cats'')
           (sample_payload 1 0) of
      Inl e \<Rightarrow> False
    | Inr r \<Rightarrow>
        sentiment_distribution r
          = \<lparr>positive = JInt 150, negative = JInt (- 20), neutral = JInt 7\<rparr> \<and>
        percentage (positive_perspective r) = JInt 150 \<and>
        count (positive_perspective r) = ''150%'' \<and>
        percentage (negative_perspective r) = JInt (- 20) \<and>
        count (negative_perspective r) = ''-20%'' \<and>
        neutral_count r = ''7%'' \<and>
        analysis_summary r = JStr [])"
proof -
  let ?w = "sample_world Map.empty (Inl TypeError) []"
  let ?gd = "sample_payload 1 0"
  let ?sd = "JObj [(''positive'', JInt 150), (''negative'', JInt (- 20)), (''neutral'', JInt 7)]
    :: unit json"
  have "case format_response ?w (JStr ''cats'') ?gd of Inl e \<Rightarrow> False | Inr r \<Rightarrow> True"
    by code_simp
  then obtain r where r: "format_response ?w (JStr ''cats'') ?gd = Inr r"
    by (auto split: sum.splits)
  have sd: "subscript ?gd ''sentiment_distribution'' = Inr ?sd" by code_simp
  have k: "subscript ?sd ''positive'' = Inr (JInt 150)"
    "subscript ?sd ''negative'' = Inr (JInt (- 20))"
    "subscript ?sd ''neutral'' = Inr (JInt 7)"
    by code_simp+
  have s: "str_int 150 = ''150''" "str_int (- 20) = ''-20''" "str_int 7 = ''7''"
    by code_simp+
  have g: "py_get ?gd ''analysis_summary'' (JStr []) = Inr (JStr [])" by code_simp
  note T = format_response_distribution [OF r sd]
  from T k have v: "positive (sentiment_distribution r) = JInt 150"
    "negative (sentiment_distribution r) = JInt (- 20)"
    "neutral (sentiment_distribution r) = JInt 7"
    by simp_all
  then have d: "sentiment_distribution r
      = \<lparr>positive = JInt 150, negative = JInt (- 20), neutral = JInt 7\<rparr>"
    by (cases "sentiment_distribution r") simp
  from T v have pc: "percentage (positive_perspective r) = JInt 150"
    "percentage (negative_perspective r) = JInt (- 20)"
    by simp_all
  from T v s have c: "count (positive_perspective r) = ''150%''"
    "count (negative_perspective r) = ''-20%''" "neutral_count r = ''7%''"
    by simp_all
  from T g have su: "analysis_summary r = JStr []" by simp
  from d pc c su show ?thesis unfolding r by simp
qed

subsection \<open>Missing keys\<close>

lemma subscript_Inl: "subscript v k = Inl e \<Longrightarrow> e = TypeError \<or> e = KeyError k"
  by (cases v) (auto split: option.splits)

lemma subscript_obj_Inl: "is_obj v \<Longrightarrow> subscript v k = Inl e \<Longrightarrow> e = KeyError k"
  by (cases v) (auto split: option.splits)

lemma subscript_Inr_obj: "subscript v k = Inr x \<Longrightarrow> is_obj v"
  by (cases v) auto

lemma py_get_obj: "is_obj v \<Longrightarrow> \<exists>x. py_get v k d = Inr x"
  by (cases v) auto

lemma has_key_iff: "has_key v k \<longleftrightarrow> (\<exists>x. subscript v k = Inr x)"
  by (auto simp: has_key_def split: sum.splits)

lemma py_iter_Inl: "py_iter v = Inl e \<Longrightarrow> e = TypeError"
  by (cases v) auto

lemma convert_examples_Inl:
  "convert_examples w label base first t i items = Inl e \<Longrightarrow>
   (e = TypeError \<or> e = KeyError ''text'') \<and> (list_all is_obj items \<longrightarrow> e = KeyError ''text'')"
proof (induction items arbitrary: i)
  case Nil
  then show ?case by simp
next
  case (Cons ex items)
  from Cons.prems consider
      (a) "subscript ex ''text'' = Inl e"
    | (b) tx where "subscript ex ''text'' = Inr tx" "py_get ex ''reasoning'' (JStr []) = Inl e"
    | (c) "convert_examples w label base first t (Suc i) items = Inl e"
    by (auto simp: bind_result_Inl)
  then show ?case
  proof cases
    case a
    then show ?thesis using subscript_Inl [OF a] subscript_obj_Inl [of ex "''text''" e] by auto
  next
    case b
    from py_get_obj [OF subscript_Inr_obj [OF b(1)], of "''reasoning''" "JStr []"] b(2)
    have False by auto
    then show ?thesis ..
  next
    case c
    then show ?thesis using Cons.IH [OF c] by auto
  qed
qed

lemma convert_examples_total:
  "list_all (\<lambda>ex. has_key ex ''text'') items \<Longrightarrow>
   \<exists>exs. convert_examples w label base first t i items = Inr exs"
proof (induction items arbitrary: i)
  case Nil
  then show ?case by simp
next
  case (Cons ex items)
  then obtain tx where tx: "subscript ex ''text'' = Inr tx" by (auto simp: has_key_iff)
  then obtain why where why: "py_get ex ''reasoning'' (JStr []) = Inr why"
    using py_get_obj [OF subscript_Inr_obj [OF tx]] by blast
  from Cons obtain rest where "convert_examples w label base first t (Suc i) items = Inr rest"
    by fastforce
  with tx why show ?case by (simp add: bind_result_def)
qed

lemma shaped_examples_iter:
  "shaped_examples v \<Longrightarrow> \<exists>xs. v = JArr xs \<and> py_iter v = Inr xs \<and> list_all is_obj xs"
  by (cases v) (auto simp: shaped_examples_def)

lemma fail_top:
  assumes "subscript gd k = Inl e" "k \<in> required_keys"
  shows "(e = TypeError \<or> e \<in> KeyError ` required_keys) \<and> (well_shaped gd \<longrightarrow> e \<noteq> TypeError)"
  using subscript_Inl [OF assms(1)] subscript_obj_Inl [OF _ assms(1)] assms(2)
  by (auto simp: well_shaped_def)

lemma fail_iter:
  assumes "py_iter v = Inl e" "subscript gd k = Inr v"
    "k = ''positive_examples'' \<or> k = ''negative_examples''"
  shows "(e = TypeError \<or> e \<in> KeyError ` required_keys) \<and> (well_shaped gd \<longrightarrow> e \<noteq> TypeError)"
proof -
  have "\<not> well_shaped gd"
  proof
    assume "well_shaped gd"
    with assms(2,3) have "shaped_examples v" by (auto simp: well_shaped_def)
    from shaped_examples_iter [OF this] assms(1) show False by auto
  qed
  with py_iter_Inl [OF assms(1)] show ?thesis by simp
qed

lemma fail_conv:
  assumes "convert_examples w label base first t i items = Inl e" "py_iter v = Inr items"
    "subscript gd k = Inr v" "k = ''positive_examples'' \<or> k = ''negative_examples''"
  shows "(e = TypeError \<or> e \<in> KeyError ` required_keys) \<and> (well_shaped gd \<longrightarrow> e \<noteq> TypeError)"
proof -
  have "list_all is_obj items" if "well_shaped gd"
  proof -
    from that assms(3,4) have "shaped_examples v" by (auto simp: well_shaped_def)
    from shaped_examples_iter [OF this] assms(2) show ?thesis by auto
  qed
  with convert_examples_Inl [OF assms(1)] show ?thesis by (auto simp: required_keys_def)
qed

lemma fail_sub:
  assumes "subscript sd k = Inl e" "subscript gd ''sentiment_distribution'' = Inr sd"
    "k \<in> required_keys"
  shows "(e = TypeError \<or> e \<in> KeyError ` required_keys) \<and> (well_shaped gd \<longrightarrow> e \<noteq> TypeError)"
proof -
  have "is_obj sd" if "well_shaped gd"
    using that assms(2) by (simp add: well_shaped_def)
  then show ?thesis
    using subscript_Inl [OF assms(1)] subscript_obj_Inl [OF _ assms(1)] assms(3) by auto
qed

lemma fail_summary:
  assumes "py_get gd k d = Inl e" "subscript gd k' = Inr v"
  shows "P"
  using py_get_obj [OF subscript_Inr_obj [OF assms(2)], of k d] assms(1) by auto

lemma format_response_Inl:
  assumes "format_response w tp gd = Inl e"
  shows "(e = TypeError \<or> e \<in> KeyError ` required_keys) \<and> (well_shaped gd \<longrightarrow> e \<noteq> TypeError)"
  using assms unfolding format_response_def
  apply (elim bind_result_InlE)
  subgoal by (erule fail_top) (simp add: required_keys_def)
  subgoal by (erule fail_iter, assumption, simp)
  subgoal by (erule fail_conv, assumption, assumption, simp)
  subgoal by (erule fail_top) (simp add: required_keys_def)
  subgoal by (erule fail_iter, assumption, simp)
  subgoal by (erule fail_conv, assumption, assumption, simp)
  subgoal by (erule fail_top) (simp add: required_keys_def)
  subgoal by (erule fail_sub, assumption) (simp add: required_keys_def)
  subgoal by (erule fail_sub, assumption) (simp add: required_keys_def)
  subgoal by (erule fail_sub, assumption) (simp add: required_keys_def)
  subgoal by (erule fail_summary, assumption)
  subgoal by simp
  done

lemma format_response_required:
  assumes "format_response w tp gd = Inr r"
  shows "required_present gd"
proof -
  from assms obtain pos pitems pex neg nitems nex sd p n u where
    sp: "subscript gd ''positive_examples'' = Inr pos" and ip: "py_iter pos = Inr pitems" and
    cp: "convert_examples w ''positive'' 100 1 0 0 pitems = Inr pex" and
    sn: "subscript gd ''negative_examples'' = Inr neg" and ineg: "py_iter neg = Inr nitems" and
    cn: "convert_examples w ''negative'' 95 6 (length pitems) 0 nitems = Inr nex" and
    sd: "subscript gd ''sentiment_distribution'' = Inr sd" and
    k: "subscript sd ''positive'' = Inr p" "subscript sd ''negative'' = Inr n"
       "subscript sd ''neutral'' = Inr u"
    by (rule format_response_Inr)
  have items: "list_all (\<lambda>ex. has_key ex ''text'') (list_items v)"
    if "py_iter v = Inr items" "convert_examples w label base first t 0 items = Inr exs"
    for v items label base first t exs
  proof (cases v)
    case (JArr xs)
    with that(1) have "items = xs" by simp
    with convert_examples_Inr [OF that(2)] JArr show ?thesis
      by (auto simp: list_items_def list_all_length has_key_iff)
  qed (simp_all add: list_items_def)
  from items [OF ip cp] items [OF ineg cn] sp sn sd k show ?thesis
    by (simp add: required_present_def has_key_iff)
qed

lemma format_response_total:
  assumes "required_present gd" "well_shaped gd"
  shows "\<exists>r. format_response w tp gd = Inr r"
proof -
  from assms(1) obtain pos neg sd where
    sp: "subscript gd ''positive_examples'' = Inr pos" and
    sn: "subscript gd ''negative_examples'' = Inr neg" and
    sd: "subscript gd ''sentiment_distribution'' = Inr sd" and
    k: "has_key sd ''positive''" "has_key sd ''negative''" "has_key sd ''neutral''" and
    tx: "list_all (\<lambda>ex. has_key ex ''text'') (list_items pos @ list_items neg)"
    by (auto simp: required_present_def split: sum.splits)
  from assms(2) sp sn have "shaped_examples pos" "shaped_examples neg"
    by (auto simp: well_shaped_def)
  then obtain ps ns where ps: "pos = JArr ps" "py_iter pos = Inr ps"
    and ns: "neg = JArr ns" "py_iter neg = Inr ns"
    using shaped_examples_iter by blast
  from tx ps ns have "list_all (\<lambda>ex. has_key ex ''text'') ps" "list_all (\<lambda>ex. has_key ex ''text'') ns"
    by (simp_all add: list_items_def)
  then obtain pex nex where
    "convert_examples w ''positive'' 100 1 0 0 ps = Inr pex"
    "convert_examples w ''negative'' 95 6 (length ps) 0 ns = Inr nex"
    using convert_examples_total by blast
  moreover obtain summary where "py_get gd ''analysis_summary'' (JStr []) = Inr summary"
    using py_get_obj [OF subscript_Inr_obj [OF sp]] by blast
  moreover from k obtain p n u where "subscript sd ''positive'' = Inr p"
    "subscript sd ''negative'' = Inr n" "subscript sd ''neutral'' = Inr u"
    by (auto simp: has_key_iff)
  ultimately show ?thesis
    using sp sn sd ps ns by (simp add: format_response_def bind_result_def)
qed

text \<open>
  Claim C9, as stated: when one of the required keys is absent, formatting raises a
  key-lookup error. An example that is a plain string has no \<^verbatim>\<open>text\<close> key, and
  \<^verbatim>\<open>ex['text']\<close> on a string raises \<^verbatim>\<open>TypeError\<close>, not \<^verbatim>\<open>KeyError\<close>.
\<close>

theorem missing_key_counterexample:
  "\<not> required_present strings_payload
   \<and> format_response (sample_world sample_env (Inr sample_reply) sample_table) (JStr ''cats'')
         strings_payload = Inl TypeError"
  by code_simp

text \<open>
  Claim C9, amended: when one of the required keys is absent, formatting raises
  \<^verbatim>\<open>KeyError\<close> for one of these keys or \<^verbatim>\<open>TypeError\<close>, and \<^verbatim>\<open>KeyError\<close> whenever the
  parts of the payload that are present have the expected JSON types; the error is
  never a \<^verbatim>\<open>JSONDecodeError\<close>, so the endpoint answers 500 with
  \<^verbatim>\<open>Analysis failed: <message>\<close>. With all required keys present in a payload of the
  expected types formatting succeeds, whether or not \<^verbatim>\<open>reasoning\<close> and
  \<^verbatim>\<open>analysis_summary\<close> are there: these two are read with a default.
\<close>

theorem format_response_missing_key:
  "(\<not> required_present gd \<longrightarrow>
      (\<exists>e. format_response w tp gd = Inl e
         \<and> (e = TypeError \<or> e \<in> KeyError ` required_keys)
         \<and> (well_shaped gd \<longrightarrow> e \<in> KeyError ` required_keys)
         \<and> \<not> is_JSONDecodeError e
         \<and> (bind_result req (\<lambda>data. py_get data ''topic'' (JStr [])) = Inr tp
              \<and> truthy (float_truth w) tp \<and> has_api_key w
              \<and> analyze_topic_with_gemini w tp = Inr gd \<longrightarrow>
            fst (analyze_topic w req)
              = \<lparr>status = 500, body = Error_body (''Analysis failed: '' @ str_exc w e)\<rparr>)))
   \<and> (required_present gd \<and> well_shaped gd \<longrightarrow>
      (\<exists>r. format_response w tp gd = Inr r
         \<and> py_get gd ''analysis_summary'' (JStr []) = Inr (analysis_summary r)
         \<and> (\<forall>ps i. subscript gd ''positive_examples'' = Inr (JArr ps) \<and> i < length ps \<longrightarrow>
               py_get (ps ! i) ''reasoning'' (JStr [])
                 = Inr (ex_reasoning (examples (positive_perspective r) ! i)))
         \<and> (\<forall>ns i. subscript gd ''negative_examples'' = Inr (JArr ns) \<and> i < length ns \<longrightarrow>
               py_get (ns ! i) ''reasoning'' (JStr [])
                 = Inr (ex_reasoning (examples (negative_perspective r) ! i)))))"
proof (intro conjI impI)
  assume nr: "\<not> required_present gd"
  have "\<not> (\<exists>r. format_response w tp gd = Inr r)"
    using nr format_response_required by blast
  then obtain e where e: "format_response w tp gd = Inl e"
    by (cases "format_response w tp gd") auto
  note E = format_response_Inl [OF e]
  have j: "\<not> is_JSONDecodeError e" using E by auto
  have ep: "fst (analyze_topic w req)
      = \<lparr>status = 500, body = Error_body (''Analysis failed: '' @ str_exc w e)\<rparr>"
    if "bind_result req (\<lambda>data. py_get data ''topic'' (JStr [])) = Inr tp
        \<and> truthy (float_truth w) tp \<and> has_api_key w \<and> analyze_topic_with_gemini w tp = Inr gd"
    using that e j
    by (simp add: analyze_topic_reached [of req tp w] bind_result_def handle_exception_def)
  from e E j ep show "\<exists>e. format_response w tp gd = Inl e
         \<and> (e = TypeError \<or> e \<in> KeyError ` required_keys)
         \<and> (well_shaped gd \<longrightarrow> e \<in> KeyError ` required_keys)
         \<and> \<not> is_JSONDecodeError e
         \<and> (bind_result req (\<lambda>data. py_get data ''topic'' (JStr [])) = Inr tp
              \<and> truthy (float_truth w) tp \<and> has_api_key w
              \<and> analyze_topic_with_gemini w tp = Inr gd \<longrightarrow>
            fst (analyze_topic w req)
              = \<lparr>status = 500, body = Error_body (''Analysis failed: '' @ str_exc w e)\<rparr>)"
    by blast
next
  assume "required_present gd \<and> well_shaped gd"
  then obtain r where r: "format_response w tp gd = Inr r"
    using format_response_total by blast
  from r obtain pos pitems pex neg nitems nex summary where
    sp: "subscript gd ''positive_examples'' = Inr pos" and ip: "py_iter pos = Inr pitems" and
    cp: "convert_examples w ''positive'' 100 1 0 0 pitems = Inr pex" and
    sn: "subscript gd ''negative_examples'' = Inr neg" and ineg: "py_iter neg = Inr nitems" and
    cn: "convert_examples w ''negative'' 95 6 (length pitems) 0 nitems = Inr nex" and
    su: "py_get gd ''analysis_summary'' (JStr []) = Inr summary" and
    ep: "examples (positive_perspective r) = pex" and
    en: "examples (negative_perspective r) = nex" and
    es: "analysis_summary r = summary"
    by (rule format_response_Inr) simp
  note P = convert_examples_Inr [OF cp] and N = convert_examples_Inr [OF cn]
  have p: "py_get (ps ! i) ''reasoning'' (JStr [])
      = Inr (ex_reasoning (examples (positive_perspective r) ! i))"
    if "subscript gd ''positive_examples'' = Inr (JArr ps) \<and> i < length ps" for ps i
    using that sp ip P unfolding ep by auto
  have n: "py_get (ns ! i) ''reasoning'' (JStr [])
      = Inr (ex_reasoning (examples (negative_perspective r) ! i))"
    if "subscript gd ''negative_examples'' = Inr (JArr ns) \<and> i < length ns" for ns i
    using that sn ineg N unfolding en by auto
  from r su es p n show "\<exists>r. format_response w tp gd = Inr r
         \<and> py_get gd ''analysis_summary'' (JStr []) = Inr (analysis_summary r)
         \<and> (\<forall>ps i. subscript gd ''positive_examples'' = Inr (JArr ps) \<and> i < length ps \<longrightarrow>
               py_get (ps ! i) ''reasoning'' (JStr [])
                 = Inr (ex_reasoning (examples (positive_perspective r) ! i)))
         \<and> (\<forall>ns i. subscript gd ''negative_examples'' = Inr (JArr ns) \<and> i < length ns \<longrightarrow>
               py_get (ns ! i) ''reasoning'' (JStr [])
                 = Inr (ex_reasoning (examples (negative_perspective r) ! i)))"
    by blast
qed

theorem format_response_missing_key_witness:
  "\<not> required_present no_negative_payload \<and> well_shaped no_negative_payload
   \<and> format_response no_negative_world (JStr ''cats'') no_negative_payload
       = Inl (KeyError ''negative_examples'')
   \<and> fst (analyze_topic no_negative_world sample_request)
       = \<lparr>status = 500,
          body = Error_body (''Analysis failed: '' @ [CHR 0x27] @ ''negative_examples'' @ [CHR 0x27])\<rparr>
   \<and> required_present (sample_payload 1 1) \<and> well_shaped (sample_payload 1 1)
   \<and> (case format_response no_negative_world (JStr ''cats'') (sample_payload 1 1) of
        Inl e \<Rightarrow> False
      | Inr r \<Rightarrow>
          analysis_summary r = JStr [] \<and>
          ex_reasoning (examples (positive_perspective r) ! 0) = JStr ''fans'' \<and>
          ex_reasoning (examples (negative_perspective r) ! 0) = JStr [])"
proof -
  let ?w = no_negative_world
  let ?tp = "JStr ''cats'' :: unit json"
  have nr: "\<not> required_present no_negative_payload" by code_simp
  have ws: "well_shaped no_negative_payload" by code_simp
  have ev: "format_response ?w ?tp no_negative_payload = Inl (KeyError ''negative_examples'')"
    by code_simp
  have reach: "bind_result sample_request (\<lambda>data. py_get data ''topic'' (JStr [])) = Inr ?tp
      \<and> truthy (float_truth ?w) ?tp \<and> has_api_key ?w
      \<and> analyze_topic_with_gemini ?w ?tp = Inr no_negative_payload"
    by code_simp
  have se: "str_exc ?w (KeyError ''negative_examples'')
      = [CHR 0x27] @ ''negative_examples'' @ [CHR 0x27]"
    by code_simp
  from format_response_missing_key [of no_negative_payload ?w ?tp sample_request,
      THEN conjunct1, rule_format, OF nr]
  obtain e where e: "format_response ?w ?tp no_negative_payload = Inl e" and
    resp: "bind_result sample_request (\<lambda>data. py_get data ''topic'' (JStr [])) = Inr ?tp
        \<and> truthy (float_truth ?w) ?tp \<and> has_api_key ?w
        \<and> analyze_topic_with_gemini ?w ?tp = Inr no_negative_payload \<longrightarrow>
      fst (analyze_topic ?w sample_request)
        = \<lparr>status = 500, body = Error_body (''Analysis failed: '' @ str_exc ?w e)\<rparr>"
    by blast
  from e ev have "e = KeyError ''negative_examples''" by simp
  with resp reach se have first: "fst (analyze_topic ?w sample_request)
       = \<lparr>status = 500,
          body = Error_body (''Analysis failed: '' @ [CHR 0x27] @ ''negative_examples'' @ [CHR 0x27])\<rparr>"
    by simp
  have rp: "required_present (sample_payload 1 1)" by code_simp
  have ws2: "well_shaped (sample_payload 1 1)" by code_simp
  have p: "subscript (sample_payload 1 1) ''positive_examples''
      = Inr (JArr [JObj [(''text'', JStr ''love it''), (''reasoning'', JStr ''fans'')]])"
    by code_simp
  have n: "subscript (sample_payload 1 1) ''negative_examples''
      = Inr (JArr [JObj [(''text'', JStr ''hate it'')]])"
    by code_simp
  have g: "py_get (sample_payload 1 1) ''analysis_summary'' (JStr []) = Inr (JStr [])"
    by code_simp
  from format_response_missing_key [of "sample_payload 1 1" ?w ?tp sample_request,
      THEN conjunct2, rule_format, OF conjI [OF rp ws2]]
  obtain r where r: "format_response ?w ?tp (sample_payload 1 1) = Inr r" and
    s: "py_get (sample_payload 1 1) ''analysis_summary'' (JStr []) = Inr (analysis_summary r)" and
    P: "\<forall>ps i. subscript (sample_payload 1 1) ''positive_examples'' = Inr (JArr ps) \<and> i < length ps \<longrightarrow>
               py_get (ps ! i) ''reasoning'' (JStr [])
                 = Inr (ex_reasoning (examples (positive_perspective r) ! i))" and
    N: "\<forall>ns i. subscript (sample_payload 1 1) ''negative_examples'' = Inr (JArr ns) \<and> i < length ns \<longrightarrow>
               py_get (ns ! i) ''reasoning'' (JStr [])
                 = Inr (ex_reasoning (examples (negative_perspective r) ! i))"
    by blast
  from s g have a: "analysis_summary r = JStr []" by simp
  from P [rule_format, of _ 0] p have b: "ex_reasoning (examples (positive_perspective r) ! 0) = JStr ''fans''"
    by simp
  from N [rule_format, of _ 0] n have c: "ex_reasoning (examples (negative_perspective r) ! 0) = JStr []"
    by simp
  from nr ws ev first rp ws2 a b c show ?thesis unfolding r by simp
qed

subsection \<open>The routes\<close>

lemma handle_exception_other:
  "\<not> is_JSONDecodeError e \<Longrightarrow>
   handle_exception w e = \<lparr>status = 500, body = Error_body (''Analysis failed: '' @ str_exc w e)\<rparr>"
  by (simp add: handle_exception_def)

lemma handle_exception_parse:
  "is_JSONDecodeError e \<Longrightarrow>
   handle_exception w e
     = \<lparr>status = 500, body = Error_body (''Failed to parse AI response: '' @ str_exc w e)\<rparr>"
  by (simp add: handle_exception_def)

lemma handle_exception_not_config:
  "handle_exception w e \<noteq> \<lparr>status = 500, body = Error_body ''GEMINI_API_KEY not configured''\<rparr>"
  by (simp add: handle_exception_def)

lemma dropWhile_replicate: "\<not> P c \<Longrightarrow> dropWhile P (replicate n c) = replicate n c"
  by (cases n) simp_all

lemma strip_replicate:
  assumes "\<not> is_space c"
  shows "strip (replicate n c) = replicate n c"
  unfolding strip_def
  by (simp only: dropWhile_replicate [where P = is_space and c = c, OF assms] rev_replicate)

lemma py_in_replicate: "sub \<noteq> [] \<Longrightarrow> hd sub \<noteq> c \<Longrightarrow> \<not> py_in sub (replicate n c)"
  by (induction n) (auto simp: prefix_Cons)

lemma extract_json_deep_text: "extract_json deep_text = Inr deep_text"
proof -
  have s: "strip deep_text = deep_text"
    unfolding deep_text_def by (rule strip_replicate) (simp add: is_space_def)
  have a: "\<not> py_in fence_json deep_text"
    unfolding deep_text_def by (rule py_in_replicate) (simp_all add: fence_json_def)
  have b: "\<not> py_in fence deep_text"
    unfolding deep_text_def by (rule py_in_replicate) (simp_all add: fence_def)
  show ?thesis unfolding extract_json_cases [of deep_text] s using a b by simp
qed

text \<open>
  Claim C6, as stated: when the extracted text cannot be parsed as JSON the response
  is 500 with \<^verbatim>\<open>Failed to parse AI response: <message>\<close>, and any other failure gives
  \<^verbatim>\<open>Analysis failed: <message>\<close>. The \<^verbatim>\<open>except\<close> clauses look at the class of the
  exception, not at where it was raised. \<^verbatim>\<open>json.loads\<close> fails on \<open>deep_text\<close> with
  \<^verbatim>\<open>RecursionError\<close>, which is not a \<^verbatim>\<open>JSONDecodeError\<close>, and the response is the one of
  the second clause.
\<close>

theorem parse_failure_counterexample:
  "extract_json deep_text = Inr deep_text
   \<and> json_loads deep_world deep_text = Inl RecursionError
   \<and> fst (analyze_topic deep_world sample_request)
       = \<lparr>status = 500,
          body = Error_body ''Analysis failed: maximum recursion depth exceeded''\<rparr>"
proof -
  let ?tp = "JStr ''cats'' :: unit json"
  have g: "generate_content deep_world (build_prompt (str_other deep_world) ?tp) = Inr deep_text"
    by (simp add: deep_world_def sample_world_def)
  have l: "json_loads deep_world deep_text = Inl RecursionError"
    by (simp add: deep_world_def)
  have a: "analyze_topic_with_gemini deep_world ?tp = Inl RecursionError"
    using analyze_topic_with_gemini_eq [OF g extract_json_deep_text] l by simp
  have r: "bind_result sample_request (\<lambda>data. py_get data ''topic'' (JStr [])) = Inr ?tp"
    by (simp add: sample_request_def bind_result_def)
  have t: "truthy (float_truth deep_world) ?tp" by simp
  have k: "has_api_key deep_world"
    by (simp add: has_api_key_def deep_world_def sample_world_def sample_env_def)
  have m: "str_exc deep_world RecursionError = ''maximum recursion depth exceeded''"
    by (simp add: deep_world_def sample_world_def)
  have "fst (analyze_topic deep_world sample_request) = handle_exception deep_world RecursionError"
    by (simp add: analyze_topic_reached [OF r t k] a bind_result_def)
  then show ?thesis
    using l extract_json_deep_text by (simp add: handle_exception_def m)
qed

text \<open>
  Claim C6, amended: once the topic and the credential checks have passed, the class
  of the exception decides the response. An exception of class \<^verbatim>\<open>JSONDecodeError\<close>,
  wherever in the pipeline it is raised, gives 500 with
  \<^verbatim>\<open>Failed to parse AI response: <message>\<close>; this is what \<^verbatim>\<open>json.loads\<close> raises for a
  text that is not JSON, and the message is that of the exception. An exception of any
  other class gives 500 with \<^verbatim>\<open>Analysis failed: <message>\<close>: the remote call failing,
  the formatter failing, and also \<^verbatim>\<open>json.loads\<close> failing with an exception that is not
  a \<^verbatim>\<open>JSONDecodeError\<close>.
\<close>

theorem analyze_topic_exception_class:
  assumes "bind_result req (\<lambda>data. py_get data ''topic'' (JStr [])) = Inr tp"
    "truthy (float_truth w) tp" "has_api_key w"
  shows "(\<forall>e. bind_result (analyze_topic_with_gemini w tp) (format_response w tp) = Inl e \<longrightarrow>
          fst (analyze_topic w req)
            = \<lparr>status = 500,
               body = Error_body
                 ((if is_JSONDecodeError e then ''Failed to parse AI response: ''
                   else ''Analysis failed: '') @ str_exc w e)\<rparr>)
    \<and> (\<forall>raw c m. generate_content w (build_prompt (str_other w) tp) = Inr raw
            \<and> extract_json raw = Inr c \<and> json_loads w c = Inl (JSONDecodeError m) \<longrightarrow>
          fst (analyze_topic w req)
            = \<lparr>status = 500,
               body = Error_body (''Failed to parse AI response: ''
                                     @ str_exc w (JSONDecodeError m))\<rparr>)
    \<and> (\<forall>raw c e. generate_content w (build_prompt (str_other w) tp) = Inr raw
            \<and> extract_json raw = Inr c \<and> json_loads w c = Inl e
            \<and> \<not> is_JSONDecodeError e \<longrightarrow>
          fst (analyze_topic w req)
            = \<lparr>status = 500, body = Error_body (''Analysis failed: '' @ str_exc w e)\<rparr>)
    \<and> (\<forall>e. generate_content w (build_prompt (str_other w) tp) = Inl e \<longrightarrow>
          fst (analyze_topic w req)
            = \<lparr>status = 500,
               body = Error_body
                 ((if is_JSONDecodeError e then ''Failed to parse AI response: ''
                   else ''Analysis failed: '') @ str_exc w e)\<rparr>)
    \<and> (\<forall>gd e. analyze_topic_with_gemini w tp = Inr gd \<and> format_response w tp gd = Inl e \<longrightarrow>
          fst (analyze_topic w req)
            = \<lparr>status = 500, body = Error_body (''Analysis failed: '' @ str_exc w e)\<rparr>)"
proof -
  note R = analyze_topic_reached [OF assms]
  have cls: "fst (analyze_topic w req)
      = \<lparr>status = 500,
         body = Error_body
           ((if is_JSONDecodeError e then ''Failed to parse AI response: ''
             else ''Analysis failed: '') @ str_exc w e)\<rparr>"
    if "bind_result (analyze_topic_with_gemini w tp) (format_response w tp) = Inl e" for e
    using that by (simp add: R handle_exception_def)
  have loads: "bind_result (analyze_topic_with_gemini w tp) (format_response w tp) = Inl e"
    if "generate_content w (build_prompt (str_other w) tp) = Inr raw
        \<and> extract_json raw = Inr c \<and> json_loads w c = Inl e" for raw c e
    using that analyze_topic_with_gemini_eq [of w tp raw c] by (simp add: bind_result_def)
  have remote: "bind_result (analyze_topic_with_gemini w tp) (format_response w tp) = Inl e"
    if "generate_content w (build_prompt (str_other w) tp) = Inl e" for e
    using that by (simp add: analyze_topic_with_gemini_def bind_result_def)
  have fmt: "bind_result (analyze_topic_with_gemini w tp) (format_response w tp) = Inl e
      \<and> \<not> is_JSONDecodeError e"
    if "analyze_topic_with_gemini w tp = Inr gd \<and> format_response w tp gd = Inl e" for gd e
    using that format_response_Inl [of w tp gd e] by (auto simp: bind_result_def)
  have a: "fst (analyze_topic w req)
      = \<lparr>status = 500,
         body = Error_body (''Failed to parse AI response: '' @ str_exc w (JSONDecodeError m))\<rparr>"
    if "generate_content w (build_prompt (str_other w) tp) = Inr raw
        \<and> extract_json raw = Inr c \<and> json_loads w c = Inl (JSONDecodeError m)" for raw c m
    using cls [OF loads [OF that]] by simp
  have b: "fst (analyze_topic w req)
      = \<lparr>status = 500, body = Error_body (''Analysis failed: '' @ str_exc w e)\<rparr>"
    if "generate_content w (build_prompt (str_other w) tp) = Inr raw
        \<and> extract_json raw = Inr c \<and> json_loads w c = Inl e \<and> \<not> is_JSONDecodeError e"
    for raw c e
  proof -
    from that have "generate_content w (build_prompt (str_other w) tp) = Inr raw
        \<and> extract_json raw = Inr c \<and> json_loads w c = Inl e"
      by simp
    from cls [OF loads [OF this]] that show ?thesis by simp
  qed
  have c: "fst (analyze_topic w req)
      = \<lparr>status = 500,
         body = Error_body
           ((if is_JSONDecodeError e then ''Failed to parse AI response: ''
             else ''Analysis failed: '') @ str_exc w e)\<rparr>"
    if "generate_content w (build_prompt (str_other w) tp) = Inl e" for e
    using cls [OF remote [OF that]] .
  have d: "fst (analyze_topic w req)
      = \<lparr>status = 500, body = Error_body (''Analysis failed: '' @ str_exc w e)\<rparr>"
    if "analyze_topic_with_gemini w tp = Inr gd \<and> format_response w tp gd = Inl e" for gd e
    using cls [of e] fmt [OF that] by simp
  from cls a b c d show ?thesis by blast
qed

theorem analyze_topic_exception_class_witness:
  "fst (analyze_topic prose_world sample_request)
     = \<lparr>status = 500,
        body = Error_body
          ''Failed to parse AI response: Expecting value: line 1 column 1 (char 0)''\<rparr>
   \<and> fst (analyze_topic offline_world sample_request)
     = \<lparr>status = 500, body = Error_body ''Analysis failed: 503 Service Unavailable''\<rparr>"
proof -
  let ?tp = "JStr ''cats'' :: unit json"
  have r1: "bind_result sample_request (\<lambda>data. py_get data ''topic'' (JStr [])) = Inr ?tp"
    by code_simp
  have t1: "truthy (float_truth prose_world) ?tp" "has_api_key prose_world" by code_simp+
  have t2: "truthy (float_truth offline_world) ?tp" "has_api_key offline_world" by code_simp+
  have p1: "generate_content prose_world (build_prompt (str_other prose_world) ?tp)
        = Inr ''Sorry, I cannot help with that.''"
    by (simp add: prose_world_def sample_world_def)
  have p2: "extract_json ''Sorry, I cannot help with that.''
        = Inr ''Sorry, I cannot help with that.''"
    by code_simp
  have p3: "json_loads prose_world ''Sorry, I cannot help with that.''
        = Inl (JSONDecodeError ''Expecting value: line 1 column 1 (char 0)'')"
    by code_simp
  have m1: "str_exc prose_world (JSONDecodeError ''Expecting value: line 1 column 1 (char 0)'')
      = ''Expecting value: line 1 column 1 (char 0)''"
    by (simp add: prose_world_def sample_world_def)
  have q: "generate_content offline_world (build_prompt (str_other offline_world) ?tp)
        = Inl (RemoteError ''503 Service Unavailable'')"
    by (simp add: offline_world_def sample_world_def)
  have m2: "str_exc offline_world (RemoteError ''503 Service Unavailable'')
      = ''503 Service Unavailable''"
    by (simp add: offline_world_def sample_world_def)
  from analyze_topic_exception_class [OF r1 t1, THEN conjunct2, THEN conjunct1, rule_format,
      OF conjI [OF p1 conjI [OF p2 p3]]]
    analyze_topic_exception_class [OF r1 t2, THEN conjunct2, THEN conjunct2, THEN conjunct2,
      THEN conjunct1, rule_format, OF q]
  show ?thesis unfolding m1 m2 by simp
qed

text \<open>
  Claim C2: a JSON object without \<^verbatim>\<open>topic\<close>, or with an empty one, is answered 400
  with \<^verbatim>\<open>Topic is required\<close>, whatever the environment holds, since the topic is
  checked first; exactly the requests with a true topic in a world without
  \<^verbatim>\<open>GEMINI_API_KEY\<close> are answered 500 with \<^verbatim>\<open>GEMINI_API_KEY not configured\<close>.
\<close>

theorem analyze_topic_topic_required:
  "(\<forall>kvs. req = Inr (JObj kvs)
          \<and> (map_of kvs ''topic'' = None \<or> map_of kvs ''topic'' = Some (JStr [])) \<longrightarrow>
      analyze_topic w req = (\<lparr>status = 400, body = Error_body ''Topic is required''\<rparr>, []))
   \<and> (\<forall>tp. bind_result req (\<lambda>data. py_get data ''topic'' (JStr [])) = Inr tp
          \<and> \<not> truthy (float_truth w) tp \<longrightarrow>
      analyze_topic w req = (\<lparr>status = 400, body = Error_body ''Topic is required''\<rparr>, []))
   \<and> (fst (analyze_topic w req)
        = \<lparr>status = 500, body = Error_body ''GEMINI_API_KEY not configured''\<rparr>
      \<longleftrightarrow> (\<exists>tp. bind_result req (\<lambda>data. py_get data ''topic'' (JStr [])) = Inr tp
                \<and> truthy (float_truth w) tp \<and> \<not> has_api_key w))"
proof (intro conjI allI impI)
  fix kvs
  assume "req = Inr (JObj kvs)
    \<and> (map_of kvs ''topic'' = None \<or> map_of kvs ''topic'' = Some (JStr []))"
  then show "analyze_topic w req = (\<lparr>status = 400, body = Error_body ''Topic is required''\<rparr>, [])"
    by (auto simp: analyze_topic_def bind_result_def)
next
  fix tp
  assume "bind_result req (\<lambda>data. py_get data ''topic'' (JStr [])) = Inr tp
    \<and> \<not> truthy (float_truth w) tp"
  then show "analyze_topic w req = (\<lparr>status = 400, body = Error_body ''Topic is required''\<rparr>, [])"
    by (simp add: analyze_topic_def)
next
  show "fst (analyze_topic w req)
        = \<lparr>status = 500, body = Error_body ''GEMINI_API_KEY not configured''\<rparr>
      \<longleftrightarrow> (\<exists>tp. bind_result req (\<lambda>data. py_get data ''topic'' (JStr [])) = Inr tp
                \<and> truthy (float_truth w) tp \<and> \<not> has_api_key w)"
  proof (cases "bind_result req (\<lambda>data. py_get data ''topic'' (JStr []))")
    case (Inl e)
    then show ?thesis by (simp add: analyze_topic_def handle_exception_not_config)
  next
    case (Inr tp)
    then show ?thesis
      by (cases "bind_result (analyze_topic_with_gemini w tp) (format_response w tp)")
        (simp_all add: analyze_topic_def handle_exception_not_config)
  qed
qed

theorem analyze_topic_topic_required_witness:
  "analyze_topic unconfigured_world (Inr (JObj []))
     = (\<lparr>status = 400, body = Error_body ''Topic is required''\<rparr>, [])
   \<and> analyze_topic unconfigured_world (Inr (JObj [(''topic'', JStr [])]))
     = (\<lparr>status = 400, body = Error_body ''Topic is required''\<rparr>, [])
   \<and> fst (analyze_topic unconfigured_world sample_request)
     = \<lparr>status = 500, body = Error_body ''GEMINI_API_KEY not configured''\<rparr>"
proof -
  let ?w = unconfigured_world
  have a: "Inr (JObj []) = Inr (JObj [])
      \<and> (map_of ([] :: (string \<times> unit json) list) ''topic'' = None
          \<or> map_of ([] :: (string \<times> unit json) list) ''topic'' = Some (JStr []))"
    by simp
  have b: "Inr (JObj [(''topic'', JStr [])]) = Inr (JObj [(''topic'', JStr [])])
      \<and> (map_of [(''topic'', JStr [] :: unit json)] ''topic'' = None
          \<or> map_of [(''topic'', JStr [] :: unit json)] ''topic'' = Some (JStr []))"
    by simp
  have c: "\<exists>tp. bind_result sample_request (\<lambda>data. py_get data ''topic'' (JStr [])) = Inr tp
      \<and> truthy (float_truth ?w) tp \<and> \<not> has_api_key ?w"
  proof (intro exI conjI)
    show "bind_result sample_request (\<lambda>data. py_get data ''topic'' (JStr []))
        = Inr (JStr ''cats'')"
      by code_simp
    show "truthy (float_truth ?w) (JStr ''cats'')" by simp
    show "\<not> has_api_key ?w" by code_simp
  qed
  note T = analyze_topic_topic_required [of _ ?w]
  from T [THEN conjunct1, rule_format, OF a] T [THEN conjunct1, rule_format, OF b]
    T [of sample_request, THEN conjunct2, THEN conjunct2, THEN iffD2, OF c]
  show ?thesis by simp
qed

text \<open>
  Claim C10: when \<^verbatim>\<open>request.get_json()\<close> raises (\<^verbatim>\<open>BadRequest\<close> for a body that
  does not parse, \<^verbatim>\<open>UnsupportedMediaType\<close> for one that is not JSON) or returns a value
  that is not an object, so that \<^verbatim>\<open>data.get\<close> raises \<^verbatim>\<open>AttributeError\<close>, the response
  is 500 with \<^verbatim>\<open>Analysis failed: <message>\<close>, not the 400 of a missing topic, and no
  remote call is made.
\<close>

theorem analyze_topic_not_object:
  assumes "(req = Inl e \<and> (e = BadRequest \<or> e = UnsupportedMediaType))
    \<or> (\<exists>v. req = Inr v \<and> \<not> is_obj v \<and> e = AttributeError)"
  shows "analyze_topic w req
      = (\<lparr>status = 500, body = Error_body (''Analysis failed: '' @ str_exc w e)\<rparr>, [])
    \<and> fst (analyze_topic w req) \<noteq> \<lparr>status = 400, body = Error_body ''Topic is required''\<rparr>"
proof -
  have g: "py_get v ''topic'' (JStr []) = Inl AttributeError" if "\<not> is_obj v" for v :: "'a json"
    using that by (cases v) simp_all
  from assms have "bind_result req (\<lambda>data. py_get data ''topic'' (JStr [])) = Inl e
      \<and> \<not> is_JSONDecodeError e"
    by (auto simp: bind_result_def g)
  then show ?thesis
    by (simp add: analyze_topic_def handle_exception_def)
qed

theorem analyze_topic_not_object_witness:
  "analyze_topic unconfigured_world (Inr JNull)
     = (\<lparr>status = 500, body = Error_body ''Analysis failed: error''\<rparr>, [])
   \<and> analyze_topic unconfigured_world (Inr (JArr [JStr ''cats'']))
     = (\<lparr>status = 500, body = Error_body ''Analysis failed: error''\<rparr>, [])
   \<and> analyze_topic unconfigured_world (Inl BadRequest)
     = (\<lparr>status = 500, body = Error_body ''Analysis failed: error''\<rparr>, [])
   \<and> analyze_topic unconfigured_world (Inl UnsupportedMediaType)
     = (\<lparr>status = 500, body = Error_body ''Analysis failed: error''\<rparr>, [])"
proof -
  let ?w = unconfigured_world
  have s: "str_exc ?w AttributeError = ''error''" "str_exc ?w BadRequest = ''error''"
    "str_exc ?w UnsupportedMediaType = ''error''"
    by (simp_all add: unconfigured_world_def sample_world_def)
  have a: "(Inr JNull = Inl AttributeError
        \<and> (AttributeError = BadRequest \<or> AttributeError = UnsupportedMediaType))
      \<or> (\<exists>v :: unit json. Inr JNull = Inr v \<and> \<not> is_obj v \<and> AttributeError = AttributeError)"
    by simp
  have b: "(Inr (JArr [JStr ''cats'']) = Inl AttributeError
        \<and> (AttributeError = BadRequest \<or> AttributeError = UnsupportedMediaType))
      \<or> (\<exists>v :: unit json. Inr (JArr [JStr ''cats'']) = Inr v \<and> \<not> is_obj v
            \<and> AttributeError = AttributeError)"
    by simp
  have c: "((Inl BadRequest :: py_error + unit json) = Inl BadRequest
        \<and> (BadRequest = BadRequest \<or> BadRequest = UnsupportedMediaType))
      \<or> (\<exists>v :: unit json. Inl BadRequest = Inr v \<and> \<not> is_obj v \<and> BadRequest = AttributeError)"
    by simp
  have d: "((Inl UnsupportedMediaType :: py_error + unit json) = Inl UnsupportedMediaType
        \<and> (UnsupportedMediaType = BadRequest \<or> UnsupportedMediaType = UnsupportedMediaType))
      \<or> (\<exists>v :: unit json. Inl UnsupportedMediaType = Inr v \<and> \<not> is_obj v
            \<and> UnsupportedMediaType = AttributeError)"
    by simp
  from analyze_topic_not_object [OF a, of ?w] analyze_topic_not_object [OF b, of ?w]
    analyze_topic_not_object [OF c, of ?w] analyze_topic_not_object [OF d, of ?w]
  show ?thesis unfolding s by simp
qed

text \<open>
  Claim C7: \<^verbatim>\<open>GET /health\<close> answers 200 with status \<^verbatim>\<open>healthy\<close> and
  \<^verbatim>\<open>gemini_configured\<close> true exactly when \<^verbatim>\<open>GEMINI_API_KEY\<close> is in the environment and
  not empty; it sends nothing to the remote API and does not depend on it.
\<close>

theorem health_check_response:
  "health_check w
     = (\<lparr>status = 200,
         body = Health_body ''healthy'' (environ w ''GEMINI_API_KEY'' \<notin> {None, Some []})\<rparr>, [])
   \<and> health_check (w\<lparr>generate_content := g\<rparr>) = health_check w"
  by (simp add: health_check_def has_api_key_def split: option.splits)

theorem health_check_response_witness:
  "health_check unconfigured_world = (\<lparr>status = 200, body = Health_body ''healthy'' False\<rparr>, [])
   \<and> health_check prose_world = (\<lparr>status = 200, body = Health_body ''healthy'' True\<rparr>, [])
   \<and> health_check (sample_world [''GEMINI_API_KEY'' \<mapsto> []] (Inr sample_reply) sample_table)
       = (\<lparr>status = 200, body = Health_body ''healthy'' False\<rparr>, [])"
proof -
  have a: "environ unconfigured_world ''GEMINI_API_KEY'' = None" by code_simp
  have b: "environ prose_world ''GEMINI_API_KEY'' = Some ''secret''" by code_simp
  have c: "environ (sample_world [''GEMINI_API_KEY'' \<mapsto> []] (Inr sample_reply) sample_table)
      ''GEMINI_API_KEY'' = Some []"
    by code_simp
  from health_check_response [of unconfigured_world, THEN conjunct1]
    health_check_response [of prose_world, THEN conjunct1]
    health_check_response
      [of "sample_world [''GEMINI_API_KEY'' \<mapsto> []] (Inr sample_reply) sample_table",
       THEN conjunct1]
  show ?thesis unfolding a b c by simp
qed

end
